theory Spec2Isabelle
  imports Main "HOL-Library.Multiset"
begin

section \<open>JavaScript values and strings\<close>

text \<open>
  The fields of a JSON request body, as the controllers read them after destructuring:
  a field that is missing is \<open>JUndefined\<close>. The model covers the scalar values
  undefined, null, booleans and strings; numbers, arrays and objects are outside it.
  Characters are code units in the Latin-1 range.
\<close>

datatype jsval = JUndefined | JNull | JBool bool | JStr string

text \<open>JavaScript truthiness, as used by \<open>!x\<close>, \<open>if (x)\<close> and \<open>x || y\<close>.\<close>

fun truthy :: "jsval \<Rightarrow> bool" where
  "truthy JUndefined = False"
| "truthy JNull = False"
| "truthy (JBool b) = b"
| "truthy (JStr s) = (s \<noteq> [])"

text \<open>\<open>Array.prototype.includes\<close> on an array of string literals: only the very string matches.\<close>

definition js_includes :: "string list \<Rightarrow> jsval \<Rightarrow> bool" where
  "js_includes xs v = (case v of JStr s \<Rightarrow> s \<in> set xs | _ \<Rightarrow> False)"

definition priorities :: "string list" where
  "priorities = [''High'', ''Medium'', ''Low'']"

definition statuses :: "string list" where
  "statuses = [''Pending'', ''Completed'']"

text \<open>\<open>String.prototype.trim\<close>: white space is removed at both ends.\<close>

definition is_space :: "char \<Rightarrow> bool" where
  "is_space c = ((of_char c :: nat) \<in> {9, 10, 11, 12, 13, 32, 160})"

definition trim :: "string \<Rightarrow> string" where
  "trim s = rev (dropWhile is_space (rev (dropWhile is_space s)))"

text \<open>\<open>String.prototype.toLowerCase\<close> on the Latin-1 range.\<close>

definition lower_char :: "char \<Rightarrow> char" where
  "lower_char c =
     (let n = (of_char c :: nat)
      in if (65 \<le> n \<and> n \<le> 90) \<or> (192 \<le> n \<and> n \<le> 222 \<and> n \<noteq> 215)
         then char_of (n + 32) else c)"

definition toLowerCase :: "string \<Rightarrow> string" where
  "toLowerCase s = map lower_char s"

text \<open>
  \<open>authHeader.split(' ')\<close>: the string is cut at every single space; empty pieces are
  kept and there is always at least one piece.
\<close>

fun js_split :: "char \<Rightarrow> string \<Rightarrow> string list" where
  "js_split sep [] = [[]]"
| "js_split sep (c # cs) =
     (let ps = js_split sep cs
      in if c = sep then [] # ps else (c # hd ps) # tl ps)"

text \<open>Indexing a JavaScript array: out of range gives undefined, here \<open>None\<close>.\<close>

fun at_index :: "'a list \<Rightarrow> nat \<Rightarrow> 'a option" where
  "at_index [] n = None"
| "at_index (x # xs) 0 = Some x"
| "at_index (x # xs) (Suc n) = at_index xs n"

section \<open>Mongoose schema types\<close>

text \<open>
  Mongoose casts a value assigned to a \<open>String\<close> path: null and undefined stay
  null (\<open>None\<close>), a boolean becomes its \<open>toString()\<close>, a string is itself.
\<close>

fun castString :: "jsval \<Rightarrow> string option" where
  "castString JUndefined = None"
| "castString JNull = None"
| "castString (JBool b) = Some (if b then ''true'' else ''false'')"
| "castString (JStr s) = Some s"

text \<open>A \<open>String\<close> path declared with \<open>trim: true\<close>: the cast value is trimmed.\<close>

definition castTrim :: "jsval \<Rightarrow> string option" where
  "castTrim v = map_option trim (castString v)"

text \<open>The email path: \<open>lowercase: true, trim: true\<close>.\<close>

definition castEmail :: "jsval \<Rightarrow> string option" where
  "castEmail v = map_option (\<lambda>s. toLowerCase (trim s)) (castString v)"

type_synonym objectId = nat

section \<open>Task model\<close>

text \<open>
  A task document (\<open>models/Task.js\<close>). \<open>tid\<close> is the document's \<open>_id\<close>; the
  string paths hold \<open>None\<close> for null. Time stamps are milliseconds.
\<close>

record task =
  tid :: objectId
  title :: "string option"
  description :: "string option"
  priority :: "string option"
  status :: "string option"
  userId :: objectId
  createdAt :: nat
  updatedAt :: nat

text \<open>
  The schema's validators, run by \<open>save\<close> and \<open>create\<close>: title, priority and status
  are required (a required string must not be empty), priority and status are enums.
\<close>

definition required :: "string option \<Rightarrow> bool" where
  "required v = (case v of None \<Rightarrow> False | Some s \<Rightarrow> s \<noteq> [])"

definition validate :: "task \<Rightarrow> bool" where
  "validate t =
     (required (title t)
      \<and> required (priority t) \<and> priority t \<in> Some ` set priorities
      \<and> required (status t) \<and> status t \<in> Some ` set statuses)"

section \<open>User model\<close>

text \<open>
  bcrypt (the \<open>bcryptjs\<close> package), symbolically. The key is the password in UTF-8
  followed by a NUL byte; the key schedule reads 18 words of 4 bytes from it, starting
  again at the first byte when the key ends, so the hash depends on the first 72 bytes
  of the repeated key and on the salt, and on nothing else. A hash records exactly
  these; comparing re-hashes the candidate with the salt of the stored hash.
\<close>

definition utf8 :: "string \<Rightarrow> nat list" where
  "utf8 s = concat (map (\<lambda>c. let n = (of_char c :: nat)
                              in if n < 128 then [n] else [192 + n div 64, 128 + n mod 64]) s)"

definition key_stream :: "nat list \<Rightarrow> nat list" where
  "key_stream k = take 72 (concat (replicate 72 k))"

datatype pwhash = Bcrypt string "nat list"

definition bcrypt_hash :: "string \<Rightarrow> string \<Rightarrow> pwhash" where
  "bcrypt_hash pw salt = Bcrypt salt (key_stream (utf8 pw @ [0]))"

definition bcrypt_compare :: "string \<Rightarrow> pwhash \<Rightarrow> bool" where
  "bcrypt_compare entered h = (case h of Bcrypt salt _ \<Rightarrow> bcrypt_hash entered salt = h)"

record user =
  uid :: objectId
  email :: string
  password :: pwhash

section \<open>The database\<close>

text \<open>
  The two collections in insertion order, and the next identifier the driver generates.
\<close>

record db =
  users :: "user list"
  tasks :: "task list"
  nextId :: objectId

definition empty_db :: db where
  "empty_db = \<lparr>users = [], tasks = [], nextId = 0\<rparr>"

datatype store_error = ValidationError | DuplicateKey | IllegalArguments

text \<open>\<open>Task.find({ userId })\<close>\<close>

definition Task_find :: "objectId \<Rightarrow> db \<Rightarrow> task list" where
  "Task_find u d = filter (\<lambda>t. userId t = u) (tasks d)"

text \<open>\<open>.sort({ createdAt: -1 })\<close>: descending by creation time.\<close>

definition sort_newest :: "task list \<Rightarrow> task list" where
  "sort_newest ts = sort_key (\<lambda>t. - int (createdAt t)) ts"

text \<open>\<open>Task.findOne({ _id: taskId, userId })\<close>\<close>

definition Task_findOne :: "objectId \<Rightarrow> objectId \<Rightarrow> db \<Rightarrow> task option" where
  "Task_findOne i u d = find (\<lambda>t. tid t = i \<and> userId t = u) (tasks d)"

text \<open>
  \<open>Task.create({ title, description, priority, userId })\<close>: the document is built
  through the schema (casts, trims, the default status), validated, and inserted.
\<close>

definition Task_create ::
  "nat \<Rightarrow> jsval \<Rightarrow> jsval \<Rightarrow> jsval \<Rightarrow> objectId \<Rightarrow> db \<Rightarrow> store_error + task \<times> db" where
  "Task_create now ttl descr prio u d =
     (let doc = \<lparr>tid = nextId d, title = castTrim ttl, description = castTrim descr,
                 priority = castString prio, status = Some ''Pending'', userId = u,
                 createdAt = now, updatedAt = now\<rparr>
      in if \<not> validate doc then Inl ValidationError
         else Inr (doc, d\<lparr>tasks := tasks d @ [doc], nextId := Suc (nextId d)\<rparr>))"

text \<open>
  \<open>task.save()\<close> on a document loaded as \<open>old\<close> and now holding \<open>new\<close>: validation,
  then the stored document with this \<open>_id\<close> is replaced; \<open>updatedAt\<close> moves only when
  something was modified.
\<close>

definition Task_save :: "nat \<Rightarrow> task \<Rightarrow> task \<Rightarrow> db \<Rightarrow> store_error + task \<times> db" where
  "Task_save now old new d =
     (if \<not> validate new then Inl ValidationError
      else if new = old then Inr (new, d)
      else let saved = new\<lparr>updatedAt := now\<rparr>
           in Inr (saved, d\<lparr>tasks := map (\<lambda>t. if tid t = tid saved then saved else t) (tasks d)\<rparr>))"

text \<open>\<open>Task.findByIdAndDelete(taskId)\<close>: the first document with this \<open>_id\<close> goes.\<close>

fun delete_by_id :: "objectId \<Rightarrow> task list \<Rightarrow> task list" where
  "delete_by_id i [] = []"
| "delete_by_id i (t # ts) = (if tid t = i then ts else t # delete_by_id i ts)"

definition Task_findByIdAndDelete :: "objectId \<Rightarrow> db \<Rightarrow> db" where
  "Task_findByIdAndDelete i d = d\<lparr>tasks := delete_by_id i (tasks d)\<rparr>"

text \<open>\<open>User.findOne({ email })\<close>: the query value passes through the path's setters.\<close>

definition User_findOne :: "jsval \<Rightarrow> db \<Rightarrow> user option" where
  "User_findOne e d = find (\<lambda>u. Some (email u) = castEmail e) (users d)"

text \<open>
  \<open>User.create({ email, password })\<close>: validation (email required, password required
  with at least 6 characters), then the pre-save hook hashes the password with a
  fresh salt, then the insert, which the unique index on email can refuse.
\<close>

definition User_create :: "string \<Rightarrow> jsval \<Rightarrow> jsval \<Rightarrow> db \<Rightarrow> store_error + user \<times> db" where
  "User_create salt e p d =
     (case (castEmail e, castString p) of
        (Some em, Some pw) \<Rightarrow>
          if em = [] \<or> pw = [] \<or> length pw < 6 then Inl ValidationError
          else if em \<in> email ` set (users d) then Inl DuplicateKey
          else let doc = \<lparr>uid = nextId d, email = em, password = bcrypt_hash pw salt\<rparr>
               in Inr (doc, d\<lparr>users := users d @ [doc], nextId := Suc (nextId d)\<rparr>)
      | _ \<Rightarrow> Inl ValidationError)"

text \<open>\<open>user.comparePassword(enteredPassword)\<close>: bcrypt refuses a value that is no string.\<close>

definition comparePassword :: "user \<Rightarrow> jsval \<Rightarrow> store_error + bool" where
  "comparePassword u entered =
     (case entered of
        JStr s \<Rightarrow> Inr (bcrypt_compare s (password u))
      | _ \<Rightarrow> Inl IllegalArguments)"

section \<open>Tokens\<close>

text \<open>
  A signed token: the payload's \<open>userId\<close>, the issue and expiry times in seconds, and
  the secret it was signed with (the signature, symbolically).
\<close>

record token =
  tok_userId :: objectId
  iat :: nat
  exp :: nat
  signed_with :: string

text \<open>
  \<open>jwt.sign({ userId }, process.env.JWT_SECRET, { expiresIn: '7d' })\<close>; an unset or
  empty secret makes \<open>sign\<close> throw (\<open>None\<close>).
\<close>

definition generateToken :: "string \<Rightarrow> nat \<Rightarrow> objectId \<Rightarrow> token option" where
  "generateToken secret now u =
     (if secret = [] then None
      else Some \<lparr>tok_userId = u, iat = now div 1000, exp = now div 1000 + 604800,
                 signed_with = secret\<rparr>)"

text \<open>
  \<open>jwt.verify(token, process.env.JWT_SECRET)\<close> on text: \<open>decode\<close> parses the compact
  form (\<open>None\<close> when malformed), then signature and expiry are checked.
\<close>

definition jwt_check :: "string \<Rightarrow> nat \<Rightarrow> token \<Rightarrow> objectId option" where
  "jwt_check secret now t =
     (if secret \<noteq> [] \<and> signed_with t = secret \<and> now div 1000 < exp t
      then Some (tok_userId t) else None)"

definition jwt_verify ::
  "(string \<Rightarrow> token option) \<Rightarrow> string \<Rightarrow> nat \<Rightarrow> string \<Rightarrow> objectId option" where
  "jwt_verify decode secret now s =
     (case decode s of None \<Rightarrow> None | Some t \<Rightarrow> jwt_check secret now t)"

section \<open>Requests and responses\<close>

record body =
  b_title :: jsval
  b_description :: jsval
  b_priority :: jsval
  b_status :: jsval
  b_userId :: jsval
  b_email :: jsval
  b_password :: jsval

text \<open>
  A request as it arrives: the Authorization header, the \<open>:id\<close> segment of the path
  (\<open>None\<close> when it is not the text of an ObjectId, so that the query's cast throws),
  and the parsed body. The access guard adds \<open>req.userId\<close>.
\<close>

record http_request =
  authorization :: "string option"
  params_id :: "objectId option"
  body :: body

record request = http_request +
  req_userId :: objectId

definition attach :: "http_request \<Rightarrow> objectId \<Rightarrow> request" where
  "attach r u = \<lparr>authorization = authorization r, params_id = params_id r, body = body r,
                 req_userId = u\<rparr>"

datatype payload =
    Message string
  | TaskList nat "task list"
  | TaskDoc string task
  | AuthInfo string token objectId

datatype response = Response (code: nat) (payload: payload)

section \<open>Task controller\<close>

definition getAllTasks :: "request \<Rightarrow> db \<Rightarrow> response \<times> db" where
  "getAllTasks req d =
     (let ts = sort_newest (Task_find (req_userId req) d)
      in (Response 200 (TaskList (length ts) ts), d))"

definition createTask :: "nat \<Rightarrow> request \<Rightarrow> db \<Rightarrow> response \<times> db" where
  "createTask now req d =
     (let ttl = b_title (body req); descr = b_description (body req);
          prio = b_priority (body req)
      in if \<not> truthy ttl \<or> \<not> truthy prio
         then (Response 400 (Message ''Please provide title and priority''), d)
         else if \<not> js_includes priorities prio
         then (Response 400 (Message ''Priority must be High, Medium, or Low''), d)
         else (case Task_create now ttl (if truthy descr then descr else JStr [])
                      prio (req_userId req) d of
                 Inl e \<Rightarrow> (Response 500 (Message ''Error creating task''), d)
               | Inr (t, d') \<Rightarrow> (Response 201 (TaskDoc ''Task created successfully'' t), d')))"

definition updateTask :: "nat \<Rightarrow> request \<Rightarrow> db \<Rightarrow> response \<times> db" where
  "updateTask now req d =
     (let ttl = b_title (body req); descr = b_description (body req);
          prio = b_priority (body req); stat = b_status (body req)
      in case params_id req of
           None \<Rightarrow> (Response 500 (Message ''Error updating task''), d)
         | Some taskId \<Rightarrow>
        (case Task_findOne taskId (req_userId req) d of
           None \<Rightarrow> (Response 404
             (Message ''Task not found or you do not have permission to update it''), d)
         | Some t0 \<Rightarrow>
             let t1 = (if truthy ttl then t0\<lparr>title := castTrim ttl\<rparr> else t0);
                 t2 = (if descr \<noteq> JUndefined then t1\<lparr>description := castTrim descr\<rparr> else t1)
             in if truthy prio \<and> \<not> js_includes priorities prio
                then (Response 400 (Message ''Priority must be High, Medium, or Low''), d)
                else
                  let t3 = (if truthy prio then t2\<lparr>priority := castString prio\<rparr> else t2)
                  in if truthy stat \<and> \<not> js_includes statuses stat
                     then (Response 400 (Message ''Status must be Pending or Completed''), d)
                     else
                       let t4 = (if truthy stat then t3\<lparr>status := castString stat\<rparr> else t3)
                       in (case Task_save now t0 t4 d of
                             Inl e \<Rightarrow> (Response 500 (Message ''Error updating task''), d)
                           | Inr (t, d') \<Rightarrow>
                               (Response 200 (TaskDoc ''Task updated successfully'' t), d'))))"

definition deleteTask :: "request \<Rightarrow> db \<Rightarrow> response \<times> db" where
  "deleteTask req d =
     (case params_id req of
        None \<Rightarrow> (Response 500 (Message ''Error deleting task''), d)
      | Some taskId \<Rightarrow>
        (case Task_findOne taskId (req_userId req) d of
           None \<Rightarrow> (Response 404
             (Message ''Task not found or you do not have permission to delete it''), d)
         | Some t \<Rightarrow>
             (Response 200 (Message ''Task deleted successfully''),
              Task_findByIdAndDelete taskId d)))"

definition markTaskCompleted :: "nat \<Rightarrow> request \<Rightarrow> db \<Rightarrow> response \<times> db" where
  "markTaskCompleted now req d =
     (case params_id req of
        None \<Rightarrow> (Response 500 (Message ''Error marking task as completed''), d)
      | Some taskId \<Rightarrow>
        (case Task_findOne taskId (req_userId req) d of
           None \<Rightarrow> (Response 404
             (Message ''Task not found or you do not have permission to update it''), d)
         | Some t0 \<Rightarrow>
             (case Task_save now t0 (t0\<lparr>status := Some ''Completed''\<rparr>) d of
                Inl e \<Rightarrow> (Response 500 (Message ''Error marking task as completed''), d)
              | Inr (t, d') \<Rightarrow> (Response 200 (TaskDoc ''Task marked as completed'' t), d'))))"

section \<open>Access guard and task routes\<close>

text \<open>
  \<open>authMiddleware\<close>: \<open>Inl\<close> is the response it sends itself, \<open>Inr\<close> the request it hands
  to \<open>next()\<close>, with \<open>req.userId\<close> set.
\<close>

definition authMiddleware ::
  "(string \<Rightarrow> token option) \<Rightarrow> string \<Rightarrow> nat \<Rightarrow> http_request \<Rightarrow> response + request" where
  "authMiddleware decode secret now req =
     (case authorization req of
        None \<Rightarrow> Inl (Response 401 (Message ''No token provided. Authorization denied.''))
      | Some authHeader \<Rightarrow>
          if authHeader = []
          then Inl (Response 401 (Message ''No token provided. Authorization denied.''))
          else (case at_index (js_split CHR '' '' authHeader) 1 of
                  None \<Rightarrow> Inl (Response 401 (Message ''Token not found. Authorization denied.''))
                | Some tok \<Rightarrow>
                    if tok = []
                    then Inl (Response 401 (Message ''Token not found. Authorization denied.''))
                    else (case jwt_verify decode secret now tok of
                            None \<Rightarrow> Inl (Response 401
                              (Message ''Invalid or expired token. Authorization denied.''))
                          | Some u \<Rightarrow> Inr (attach req u))))"

datatype route = GET_tasks | POST_tasks | PUT_task | DELETE_task | PATCH_complete

fun handler :: "route \<Rightarrow> nat \<Rightarrow> request \<Rightarrow> db \<Rightarrow> response \<times> db" where
  "handler GET_tasks now req d = getAllTasks req d"
| "handler POST_tasks now req d = createTask now req d"
| "handler PUT_task now req d = updateTask now req d"
| "handler DELETE_task now req d = deleteTask req d"
| "handler PATCH_complete now req d = markTaskCompleted now req d"

text \<open>\<open>router.METHOD(path, authMiddleware, handler)\<close>\<close>

definition router ::
  "(string \<Rightarrow> token option) \<Rightarrow> string \<Rightarrow> nat \<Rightarrow> route \<Rightarrow> http_request \<Rightarrow> db \<Rightarrow> response \<times> db"
  where
  "router decode secret now r req d =
     (case authMiddleware decode secret now req of
        Inl res \<Rightarrow> (res, d)
      | Inr req' \<Rightarrow> handler r now req' d)"

section \<open>Authentication controller\<close>

definition register :: "nat \<Rightarrow> string \<Rightarrow> string \<Rightarrow> http_request \<Rightarrow> db \<Rightarrow> response \<times> db" where
  "register now salt secret req d =
     (let e = b_email (body req); p = b_password (body req)
      in if \<not> truthy e \<or> \<not> truthy p
         then (Response 400 (Message ''Please provide both email and password''), d)
         else (case User_findOne e d of
                 Some existingUser \<Rightarrow>
                   (Response 400 (Message ''User with this email already exists''), d)
               | None \<Rightarrow>
                   (case User_create salt e p d of
                      Inl err \<Rightarrow> (Response 500 (Message ''Error registering user''), d)
                    | Inr (u, d') \<Rightarrow>
                        (case generateToken secret now (uid u) of
                           None \<Rightarrow> (Response 500 (Message ''Error registering user''), d')
                         | Some t \<Rightarrow>
                             (Response 201 (AuthInfo ''User registered successfully'' t (uid u)),
                              d')))))"

definition login :: "nat \<Rightarrow> string \<Rightarrow> http_request \<Rightarrow> db \<Rightarrow> response \<times> db" where
  "login now secret req d =
     (let e = b_email (body req); p = b_password (body req)
      in if \<not> truthy e \<or> \<not> truthy p
         then (Response 400 (Message ''Please provide both email and password''), d)
         else (case User_findOne e d of
                 None \<Rightarrow> (Response 401 (Message ''Invalid email or password''), d)
               | Some u \<Rightarrow>
                   (case comparePassword u p of
                      Inl err \<Rightarrow> (Response 500 (Message ''Error logging in''), d)
                    | Inr isPasswordValid \<Rightarrow>
                        if \<not> isPasswordValid
                        then (Response 401 (Message ''Invalid email or password''), d)
                        else (case generateToken secret now (uid u) of
                                None \<Rightarrow> (Response 500 (Message ''Error logging in''), d)
                              | Some t \<Rightarrow>
                                  (Response 200 (AuthInfo ''Login successful'' t (uid u)), d)))))"

section \<open>Reachable states\<close>

text \<open>
  The states of the database that a run of the server can produce from the empty
  database: any handler, with any request and any clock value.
\<close>

inductive reachable :: "db \<Rightarrow> bool" where
  init: "reachable empty_db"
| reg: "reachable d \<Longrightarrow> reachable (snd (register now salt secret req d))"
| log: "reachable d \<Longrightarrow> reachable (snd (login now secret req d))"
| task: "reachable d \<Longrightarrow> reachable (snd (handler r now areq d))"

text \<open>
  What every reachable state satisfies: task identifiers are distinct and below the
  next identifier, every stored task passes the schema's validators, and emails are
  distinct.
\<close>

definition wf_db :: "db \<Rightarrow> bool" where
  "wf_db d = (distinct (map tid (tasks d)) \<and> list_all (\<lambda>t. tid t < nextId d \<and> validate t) (tasks d)
     \<and> distinct (map email (users d)))"

text \<open>
  The document \<open>updateTask\<close> hands to \<open>save\<close>: the assignments of the four
  fields, in the order of the source.
\<close>

definition applied :: "body \<Rightarrow> task \<Rightarrow> task" where
  "applied b t0 =
     (let t1 = (if truthy (b_title b) then t0\<lparr>title := castTrim (b_title b)\<rparr> else t0);
          t2 = (if b_description b \<noteq> JUndefined then t1\<lparr>description := castTrim (b_description b)\<rparr> else t1);
          t3 = (if truthy (b_priority b) then t2\<lparr>priority := castString (b_priority b)\<rparr> else t2)
      in if truthy (b_status b) then t3\<lparr>status := castString (b_status b)\<rparr> else t3)"

definition bad_enum :: "string list \<Rightarrow> jsval \<Rightarrow> bool" where
  "bad_enum xs v = (truthy v \<and> \<not> js_includes xs v)"

section \<open>Concrete requests and states\<close>

definition no_body :: body where
  "no_body = \<lparr>b_title = JUndefined, b_description = JUndefined, b_priority = JUndefined,
     b_status = JUndefined, b_userId = JUndefined, b_email = JUndefined, b_password = JUndefined\<rparr>"

definition as_user :: "objectId \<Rightarrow> objectId option \<Rightarrow> body \<Rightarrow> request" where
  "as_user u i b = \<lparr>authorization = None, params_id = i, body = b, req_userId = u\<rparr>"

definition task_A :: task where
  "task_A = \<lparr>tid = 0, title = Some ''A'', description = Some [], priority = Some ''High'',
     status = Some ''Pending'', userId = 7, createdAt = 1000, updatedAt = 1000\<rparr>"

definition db_A :: db where
  "db_A = \<lparr>users = [], tasks = [task_A], nextId = 1\<rparr>"

definition task_B :: task where
  "task_B = \<lparr>tid = 1, title = Some ''B'', description = Some ''second'', priority = Some ''Low'',
     status = Some ''Pending'', userId = 8, createdAt = 2000, updatedAt = 2000\<rparr>"

definition db_AB :: db where
  "db_AB = \<lparr>users = [], tasks = [task_A, task_B], nextId = 2\<rparr>"

definition task_B_done :: task where
  "task_B_done = task_B\<lparr>status := Some ''Completed'', updatedAt := 3000\<rparr>"

definition db_AB_done :: db where
  "db_AB_done = db_AB\<lparr>tasks := [task_A, task_B_done]\<rparr>"

text \<open>A token for user 7 signed with the secret \<open>s3cret\<close>, and a parser that knows its text.\<close>

definition token_7 :: token where
  "token_7 = \<lparr>tok_userId = 7, iat = 1, exp = 604801, signed_with = ''s3cret''\<rparr>"

definition decode_7 :: "string \<Rightarrow> token option" where
  "decode_7 s = (if s = ''tok7'' then Some token_7 else None)"

text \<open>A token for user 8, and a parser that knows the texts of both tokens.\<close>

definition token_8 :: token where
  "token_8 = \<lparr>tok_userId = 8, iat = 1, exp = 604801, signed_with = ''s3cret''\<rparr>"

definition decode_78 :: "string \<Rightarrow> token option" where
  "decode_78 s = (if s = ''tok7'' then Some token_7 else if s = ''tok8'' then Some token_8 else None)"

definition with_header :: "string option \<Rightarrow> http_request" where
  "with_header h = \<lparr>authorization = h, params_id = None, body = no_body\<rparr>"

definition credentials :: "jsval \<Rightarrow> jsval \<Rightarrow> http_request" where
  "credentials e p = \<lparr>authorization = None, params_id = None,
     body = no_body\<lparr>b_email := e, b_password := p\<rparr>\<rparr>"

definition alice :: user where
  "alice = \<lparr>uid = 0, email = ''alice@x.com'', password = bcrypt_hash ''secret1'' ''salt''\<rparr>"

definition db_alice :: db where
  "db_alice = \<lparr>users = [alice], tasks = [], nextId = 1\<rparr>"

definition token_alice :: token where
  "token_alice = \<lparr>tok_userId = 0, iat = 1, exp = 604801, signed_with = ''s3cret''\<rparr>"

definition decode_alice :: "string \<Rightarrow> token option" where
  "decode_alice s = (if s = ''tokA'' then Some token_alice else None)"

section \<open>The wording of claim C10\<close>

text \<open>
  The claim's words, not the code: the components of a header separated by white
  space, that is, the maximal pieces free of white space.
\<close>

fun ws_pieces :: "string \<Rightarrow> string \<Rightarrow> string list" where
  "ws_pieces cur [] = (if cur = [] then [] else [rev cur])"
| "ws_pieces cur (c # cs) =
     (if is_space c then (if cur = [] then ws_pieces [] cs else rev cur # ws_pieces [] cs)
      else ws_pieces (c # cur) cs)"

definition whitespace_separated :: "string \<Rightarrow> string list" where
  "whitespace_separated s = ws_pieces [] s"

section \<open>Invariants of the reachable states\<close>

lemma wf_empty: "wf_db empty_db" by (simp add: wf_db_def empty_db_def)

lemma wf_register: "wf_db d \<Longrightarrow> wf_db (snd (register now salt secret req d))"
  by (auto simp: register_def User_create_def Let_def wf_db_def list_all_iff split: option.splits sum.splits if_splits prod.splits)

lemma wf_login: "wf_db (snd (login now secret req d)) = wf_db d"
  by (auto simp: login_def Let_def split: option.splits sum.splits if_splits)

lemma wf_getAll: "snd (getAllTasks req d) = d" by (simp add: getAllTasks_def Let_def)

lemma wf_create: "wf_db d \<Longrightarrow> wf_db (snd (createTask now req d))"
  by (auto simp: createTask_def Task_create_def Let_def wf_db_def list_all_iff split: option.splits sum.splits if_splits prod.splits)

lemma find_Some_D: "find P xs = Some x \<Longrightarrow> x \<in> set xs \<and> P x"
  by (induction xs) (auto split: if_splits)

lemma map_tid_replace: "tid s = i \<Longrightarrow> map tid (map (\<lambda>x. if tid x = i then s else x) ts) = map tid ts"
  by (induction ts) auto

lemma set_replace: "set (map (\<lambda>x. if tid x = i then s else x) ts) \<subseteq> insert s (set ts)"
  by auto

lemma validate_updatedAt: "validate (t\<lparr>updatedAt := n\<rparr>) = validate t"
  by (simp add: validate_def)

lemma wf_save:
  assumes wf: "wf_db d" and sv: "Task_save now t0 t1 d = Inr (t, d')" and lt: "tid t1 < nextId d"
  shows "wf_db d'"
proof (cases "t1 = t0")
  case True
  then show ?thesis using wf sv by (simp add: Task_save_def split: if_splits)
next
  case False
  let ?s = "t1\<lparr>updatedAt := now\<rparr>"
  let ?ts = "map (\<lambda>x. if tid x = tid t1 then ?s else x) (tasks d)"
  from sv False have v: "validate t1" and d': "d' = d\<lparr>tasks := ?ts\<rparr>"
    by (auto simp: Task_save_def Let_def split: if_splits)
  have eq: "map tid ?ts = map tid (tasks d)"
    by (rule map_tid_replace) simp
  have 1: "distinct (map tid ?ts)" unfolding eq using wf by (simp add: wf_db_def)
  have "set ?ts \<subseteq> insert ?s (set (tasks d))" by (rule set_replace)
  moreover have "tid ?s < nextId d \<and> validate ?s" using lt v by (simp add: validate_updatedAt)
  ultimately have 2: "list_all (\<lambda>t. tid t < nextId d \<and> validate t) ?ts"
    using wf unfolding wf_db_def list_all_iff by blast
  show ?thesis using 1 2 wf by (simp add: d' wf_db_def)
qed

lemma findOne_D: "Task_findOne i u d = Some t \<Longrightarrow> t \<in> set (tasks d) \<and> tid t = i \<and> userId t = u"
  unfolding Task_findOne_def by (drule find_Some_D) simp

lemma wf_tid_less: "wf_db d \<Longrightarrow> t \<in> set (tasks d) \<Longrightarrow> tid t < nextId d"
  by (simp add: wf_db_def list_all_iff)

lemma wf_complete: "wf_db d \<Longrightarrow> wf_db (snd (markTaskCompleted now req d))"
proof -
  assume wf: "wf_db d"
  show ?thesis
  proof (cases "params_id req")
    case None then show ?thesis using wf by (simp add: markTaskCompleted_def)
  next
    case (Some i)
    show ?thesis
    proof (cases "Task_findOne i (req_userId req) d")
      case None then show ?thesis using wf Some by (simp add: markTaskCompleted_def)
    next
      case (Some t0)
      then have "tid (t0\<lparr>status := Some ''Completed''\<rparr>) < nextId d"
        using wf findOne_D wf_tid_less by fastforce
      then show ?thesis using wf Some \<open>params_id req = Some i\<close> wf_save
        by (auto simp: markTaskCompleted_def split: sum.splits)
    qed
  qed
qed

lemma set_delete_by_id: "set (delete_by_id i ts) \<subseteq> set ts"
  by (induction ts) auto

lemma distinct_delete_by_id: "distinct (map tid ts) \<Longrightarrow> distinct (map tid (delete_by_id i ts))"
proof (induction ts)
  case Nil
  then show ?case by simp
next
  case (Cons a ts)
  have "tid ` set (delete_by_id i ts) \<subseteq> tid ` set ts"
    using set_delete_by_id by blast
  with Cons show ?case by auto
qed

lemma wf_delete: "wf_db d \<Longrightarrow> wf_db (snd (deleteTask req d))"
  using set_delete_by_id
  by (auto simp: deleteTask_def Task_findByIdAndDelete_def wf_db_def list_all_iff distinct_delete_by_id
      split: option.splits)

lemma updateTask_found:
  assumes "params_id req = Some i" and "Task_findOne i (req_userId req) d = Some t0"
  shows "updateTask now req d =
     (if bad_enum priorities (b_priority (body req))
      then (Response 400 (Message ''Priority must be High, Medium, or Low''), d)
      else if bad_enum statuses (b_status (body req))
      then (Response 400 (Message ''Status must be Pending or Completed''), d)
      else (case Task_save now t0 (applied (body req) t0) d of
              Inl e \<Rightarrow> (Response 500 (Message ''Error updating task''), d)
            | Inr (t, d') \<Rightarrow> (Response 200 (TaskDoc ''Task updated successfully'' t), d')))"
  using assms by (simp add: updateTask_def Let_def applied_def bad_enum_def)

lemma applied_keeps: "tid (applied b t0) = tid t0" "userId (applied b t0) = userId t0"
  "createdAt (applied b t0) = createdAt t0"
  by (simp_all add: applied_def Let_def)

lemma wf_update: "wf_db d \<Longrightarrow> wf_db (snd (updateTask now req d))"
proof -
  assume wf: "wf_db d"
  show ?thesis
  proof (cases "params_id req")
    case None then show ?thesis using wf by (simp add: updateTask_def)
  next
    case (Some i)
    note i = this
    show ?thesis
    proof (cases "Task_findOne i (req_userId req) d")
      case None then show ?thesis using wf i by (simp add: updateTask_def)
    next
      case (Some t0)
      then have lt: "tid (applied (body req) t0) < nextId d"
        using wf findOne_D wf_tid_less by (fastforce simp: applied_keeps)
      show ?thesis
      proof (cases "Task_save now t0 (applied (body req) t0) d")
        case (Inl e)
        then show ?thesis using wf by (simp add: updateTask_found [OF i Some])
      next
        case (Inr p)
        then obtain t d' where p: "Task_save now t0 (applied (body req) t0) d = Inr (t, d')"
          by (cases p) simp
        then have "wf_db d'" using wf_save [OF wf _ lt] by blast
        then show ?thesis using wf p by (simp add: updateTask_found [OF i Some])
      qed
    qed
  qed
qed

lemma wf_handler: "wf_db d \<Longrightarrow> wf_db (snd (handler r now req d))"
  by (cases r) (simp_all add: wf_getAll wf_create wf_update wf_delete wf_complete)

lemma reachable_wf: "reachable d \<Longrightarrow> wf_db d"
  by (induction rule: reachable.induct) (simp_all add: wf_empty wf_register wf_login wf_handler)

section \<open>Lookups by identifier and owner\<close>

lemma find_None_conv: "(find P xs = None) = (\<forall>x\<in>set xs. \<not> P x)"
  by (induction xs) auto

lemma findOne_other_owner:
  assumes "wf_db d" "t \<in> set (tasks d)" "userId t \<noteq> u"
  shows "Task_findOne (tid t) u d = None"
proof -
  have inj: "inj_on tid (set (tasks d))"
    using assms(1) by (simp add: wf_db_def distinct_map)
  have "\<forall>x\<in>set (tasks d). \<not> (tid x = tid t \<and> userId x = u)"
  proof
    fix x assume x: "x \<in> set (tasks d)"
    show "\<not> (tid x = tid t \<and> userId x = u)"
    proof
      assume *: "tid x = tid t \<and> userId x = u"
      then have "x = t" using inj x assms(2) by (auto dest: inj_onD)
      then show False using * assms(3) by simp
    qed
  qed
  then show ?thesis by (simp add: Task_findOne_def find_None_conv)
qed

lemma find_unique:
  "distinct (map tid ts) \<Longrightarrow> t \<in> set ts \<Longrightarrow> find (\<lambda>x. tid x = tid t \<and> userId x = userId t) ts = Some t"
proof (induction ts)
  case Nil
  then show ?case by simp
next
  case (Cons a ts)
  show ?case
  proof (cases "a = t")
    case True
    then show ?thesis by simp
  next
    case False
    then have "t \<in> set ts" using Cons.prems by simp
    then have "tid a \<noteq> tid t" using Cons.prems by auto
    then show ?thesis using Cons \<open>t \<in> set ts\<close> by simp
  qed
qed

lemma findOne_own:
  "wf_db d \<Longrightarrow> t \<in> set (tasks d) \<Longrightarrow> Task_findOne (tid t) (userId t) d = Some t"
  by (simp add: Task_findOne_def wf_db_def find_unique)

lemma find_replaced:
  "t \<in> set ts \<Longrightarrow> tid s = tid t \<Longrightarrow> userId s = userId t \<Longrightarrow> userId t = u \<Longrightarrow> i = tid t \<Longrightarrow> distinct (map tid ts) \<Longrightarrow>
   find (\<lambda>x. tid x = i \<and> userId x = u) (map (\<lambda>x. if tid x = i then s else x) ts) = Some s"
proof (induction ts)
  case Nil
  then show ?case by simp
next
  case (Cons a ts)
  show ?case
  proof (cases "tid a = tid t")
    case True
    then show ?thesis using Cons.prems by simp
  next
    case False
    then have "t \<in> set ts" using Cons.prems by auto
    then show ?thesis using Cons False by simp
  qed
qed

lemma save_persists:
  assumes wf: "wf_db d" and t0: "t0 \<in> set (tasks d)" and same: "tid t1 = tid t0" "userId t1 = userId t0"
    and sv: "Task_save now t0 t1 d = Inr (t, d')"
  shows "Task_findOne (tid t0) (userId t0) d' = Some t"
proof (cases "t1 = t0")
  case True
  then have "t = t0" "d' = d" using sv by (auto simp: Task_save_def split: if_splits)
  then show ?thesis using wf t0 by (simp add: findOne_own)
next
  case False
  then have t: "t = t1\<lparr>updatedAt := now\<rparr>"
    and d': "d' = d\<lparr>tasks := map (\<lambda>x. if tid x = tid t0 then t else x) (tasks d)\<rparr>"
    using sv same by (auto simp: Task_save_def Let_def split: if_splits)
  have "find (\<lambda>x. tid x = tid t0 \<and> userId x = userId t0)
          (map (\<lambda>x. if tid x = tid t0 then t else x) (tasks d)) = Some t"
    using t0 wf same by (intro find_replaced) (simp_all add: t wf_db_def)
  then show ?thesis by (simp add: d' Task_findOne_def)
qed

lemma save_succeeds: "validate new \<Longrightarrow> \<exists>t d'. Task_save now old new d = Inr (t, d')"
  by (cases "new = old") (simp_all add: Task_save_def Let_def)

lemma wf_validate: "wf_db d \<Longrightarrow> t \<in> set (tasks d) \<Longrightarrow> validate t"
  by (simp add: wf_db_def list_all_iff)

lemma validate_status: "validate t \<Longrightarrow> validate (t\<lparr>status := Some ''Completed''\<rparr>)"
  by (simp add: validate_def required_def statuses_def)

section \<open>Evaluating the concrete states\<close>

lemmas ctl_defs = createTask_def Task_create_def js_includes_def priorities_def statuses_def
  castTrim_def trim_def is_space_def validate_def required_def Let_def

lemma createTask_A:
  "createTask 1000 (as_user 7 None (no_body\<lparr>b_title := JStr ''A'', b_priority := JStr ''High''\<rparr>)) empty_db
    = (Response 201 (TaskDoc ''Task created successfully'' task_A), db_A)"
  by (simp add: ctl_defs as_user_def no_body_def empty_db_def task_A_def db_A_def)

lemma createTask_B:
  "createTask 2000 (as_user 8 None (no_body\<lparr>b_title := JStr ''B'', b_description := JStr ''second'',
       b_priority := JStr ''Low''\<rparr>)) db_A
    = (Response 201 (TaskDoc ''Task created successfully'' task_B), db_AB)"
  by (simp add: ctl_defs as_user_def no_body_def task_B_def db_A_def db_AB_def)

lemma reachable_db_A: "reachable db_A"
proof -
  have "reachable (snd (handler POST_tasks 1000
     (as_user 7 None (no_body\<lparr>b_title := JStr ''A'', b_priority := JStr ''High''\<rparr>)) empty_db))"
    by (rule reachable.task [OF reachable.init])
  then show ?thesis by (simp add: createTask_A)
qed

lemma reachable_db_AB: "reachable db_AB"
proof -
  have "reachable (snd (handler POST_tasks 2000
     (as_user 8 None (no_body\<lparr>b_title := JStr ''B'', b_description := JStr ''second'',
       b_priority := JStr ''Low''\<rparr>)) db_A))"
    by (rule reachable.task [OF reachable_db_A])
  then show ?thesis by (simp add: createTask_B)
qed

section \<open>Casts and validators\<close>

lemma truthy_castString: "truthy v \<Longrightarrow> \<exists>s. castString v = Some s \<and> s \<noteq> []"
  by (cases v) auto

lemma includes_castString:
  "js_includes xs v \<Longrightarrow> castString v \<in> Some ` set xs"
  by (cases v) (auto simp: js_includes_def)

lemma includes_priorities_truthy: "js_includes priorities v \<Longrightarrow> truthy v"
  by (cases v) (auto simp: js_includes_def priorities_def)

lemma includes_statuses_truthy: "js_includes statuses v \<Longrightarrow> truthy v"
  by (cases v) (auto simp: js_includes_def statuses_def)

lemma required_priorities: "v \<in> Some ` set priorities \<Longrightarrow> required v"
  by (auto simp: priorities_def required_def)

lemma required_statuses: "v \<in> Some ` set statuses \<Longrightarrow> required v"
  by (auto simp: statuses_def required_def)

lemma required_title:
  "truthy v \<Longrightarrow> castTrim v \<noteq> Some [] \<Longrightarrow> required (castTrim v)"
  by (cases v) (auto simp: castTrim_def required_def)

lemma Task_create_ok:
  assumes "truthy ttl" and "js_includes priorities prio" and "castTrim ttl \<noteq> Some []"
  shows "Task_create now ttl descr prio u d =
     Inr (\<lparr>tid = nextId d, title = castTrim ttl, description = castTrim descr,
            priority = castString prio, status = Some ''Pending'', userId = u,
            createdAt = now, updatedAt = now\<rparr>,
          d\<lparr>tasks := tasks d @ [\<lparr>tid = nextId d, title = castTrim ttl, description = castTrim descr,
            priority = castString prio, status = Some ''Pending'', userId = u,
            createdAt = now, updatedAt = now\<rparr>], nextId := Suc (nextId d)\<rparr>)"
proof -
  have "validate \<lparr>tid = nextId d, title = castTrim ttl, description = castTrim descr,
            priority = castString prio, status = Some ''Pending'', userId = u,
            createdAt = now, updatedAt = now\<rparr>"
    using assms required_title [OF assms(1,3)] includes_castString [OF assms(2)]
    by (simp add: validate_def required_priorities) (simp add: required_def statuses_def)
  then show ?thesis by (simp add: Task_create_def Let_def)
qed

lemma castTrim_descr_default:
  "castTrim (if truthy v then v else JStr []) = (if truthy v then castTrim v else Some [])"
  by (simp add: castTrim_def trim_def)

section \<open>The document an update saves\<close>

lemma validate_applied:
  assumes v: "validate t0"
    and p: "\<not> bad_enum priorities (b_priority b)" and s: "\<not> bad_enum statuses (b_status b)"
    and t: "truthy (b_title b) \<longrightarrow> castTrim (b_title b) \<noteq> Some []"
  shows "validate (applied b t0)"
proof -
  have 1: "truthy (b_title b) \<Longrightarrow> required (castTrim (b_title b))"
    using t by (simp add: required_title)
  have 2: "truthy (b_priority b) \<Longrightarrow> castString (b_priority b) \<in> Some ` set priorities"
    using p by (simp add: bad_enum_def includes_castString)
  have 3: "truthy (b_status b) \<Longrightarrow> castString (b_status b) \<in> Some ` set statuses"
    using s by (simp add: bad_enum_def includes_castString)
  show ?thesis
    using v 1 2 3 required_priorities required_statuses
    by (simp add: validate_def applied_def Let_def)
qed

lemma applied_fields:
  "title (applied b t0) = (if truthy (b_title b) then castTrim (b_title b) else title t0)"
  "description (applied b t0) =
     (if b_description b \<noteq> JUndefined then castTrim (b_description b) else description t0)"
  "priority (applied b t0) = (if truthy (b_priority b) then castString (b_priority b) else priority t0)"
  "status (applied b t0) = (if truthy (b_status b) then castString (b_status b) else status t0)"
  by (simp_all add: applied_def Let_def)

lemma save_fields:
  assumes "Task_save now old new d = Inr (t, d')"
  shows "t\<lparr>updatedAt := updatedAt new\<rparr> = new"
  using assms by (auto simp: Task_save_def Let_def split: if_splits)

lemma save_fields':
  assumes "Task_save now old new d = Inr (t, d')"
  shows "tid t = tid new" "title t = title new" "description t = description new"
    "priority t = priority new" "status t = status new" "userId t = userId new"
    "createdAt t = createdAt new"
  using assms by (auto simp: Task_save_def Let_def split: if_splits)

lemmas upd_defs = updateTask_def Task_findOne_def Task_save_def js_includes_def priorities_def
  statuses_def castTrim_def trim_def is_space_def validate_def required_def Let_def as_user_def
  no_body_def db_AB_def db_AB_done_def task_A_def task_B_def task_B_done_def bad_enum_def

lemma complete_B:
  "markTaskCompleted 3000 (as_user 8 (Some 1) no_body) db_AB =
     (Response 200 (TaskDoc ''Task marked as completed'' task_B_done), db_AB_done)"
  by (simp add: markTaskCompleted_def Task_findOne_def Task_save_def as_user_def db_AB_def
      db_AB_done_def task_A_def task_B_def task_B_done_def validate_def required_def priorities_def
      statuses_def Let_def)

lemma reachable_db_AB_done: "reachable db_AB_done"
proof -
  have "reachable (snd (handler PATCH_complete 3000 (as_user 8 (Some 1) no_body) db_AB))"
    by (rule reachable.task [OF reachable_db_AB])
  then show ?thesis unfolding handler.simps complete_B by simp
qed

section \<open>The access guard\<close>

lemma js_split_nonempty: "js_split sep s \<noteq> []"
  by (induction s) (simp_all add: Let_def)

lemma js_split_nosep: "sep \<notin> set s \<Longrightarrow> js_split sep s = [s]"
  by (induction s) (auto simp: Let_def)

lemma js_split_prefix: "sep \<notin> set w \<Longrightarrow> js_split sep (w @ sep # rest) = w # js_split sep rest"
  by (induction w) (auto simp: Let_def js_split_nonempty)

lemma updateTask_code: "code (fst (updateTask now req d)) \<in> {200, 400, 404, 500}"
proof (cases "params_id req")
  case None
  then show ?thesis by (simp add: updateTask_def)
next
  case (Some i)
  note i = this
  show ?thesis
  proof (cases "Task_findOne i (req_userId req) d")
    case None
    then show ?thesis using i by (simp add: updateTask_def)
  next
    case (Some t0)
    show ?thesis
      by (cases "Task_save now t0 (applied (body req) t0) d")
         (auto simp: updateTask_found [OF i Some])
  qed
qed

lemma handler_code: "code (fst (handler r now req d)) \<in> {200, 201, 400, 404, 500}"
proof (cases r)
  case GET_tasks
  then show ?thesis by (simp add: getAllTasks_def Let_def)
next
  case POST_tasks
  then show ?thesis by (auto simp: createTask_def Let_def split: sum.splits)
next
  case PUT_task
  then show ?thesis using updateTask_code [of now req d] by auto
next
  case DELETE_task
  then show ?thesis by (auto simp: deleteTask_def split: option.splits)
next
  case PATCH_complete
  then show ?thesis by (auto simp: markTaskCompleted_def split: option.splits sum.splits)
qed

lemma handler_not_401: "code (fst (handler r now req d)) \<noteq> 401"
  using handler_code [of r now req d] by auto

lemma jwt_verify_Some:
  "jwt_verify decode secret now tok = Some u \<longleftrightarrow>
     (\<exists>t. decode tok = Some t \<and> secret \<noteq> [] \<and> signed_with t = secret \<and> now div 1000 < exp t
          \<and> u = tok_userId t)"
  by (auto simp: jwt_verify_def jwt_check_def split: option.splits)

lemma authMiddleware_Inl: "authMiddleware decode secret now req = Inl res \<Longrightarrow> code res = 401"
  by (auto simp: authMiddleware_def split: option.splits if_splits)

lemma authMiddleware_Inr:
  "authMiddleware decode secret now req = Inr areq \<longleftrightarrow>
     (\<exists>h tok u. authorization req = Some h \<and> at_index (js_split CHR '' '' h) 1 = Some tok
        \<and> tok \<noteq> [] \<and> jwt_verify decode secret now tok = Some u \<and> areq = attach req u)"
  by (auto simp: authMiddleware_def split: option.splits if_splits)

lemmas guard_defs = authMiddleware_def jwt_verify_def jwt_check_def decode_7_def token_7_def
  with_header_def attach_def Let_def

lemma split_Bearer_tok7: "js_split CHR '' '' ''Bearer tok7'' = [''Bearer'', ''tok7'']"
  by (simp add: Let_def)

lemma split_Bearer_bogus: "js_split CHR '' '' ''Bearer bogus'' = [''Bearer'', ''bogus'']"
  by (simp add: Let_def)

lemma split_Basic_tok7: "js_split CHR '' '' ''Basic tok7'' = [''Basic'', ''tok7'']"
  by (simp add: Let_def)

lemma getAllTasks_7:
  "getAllTasks (attach (with_header (Some ''Bearer tok7'')) 7) db_AB =
     (Response 200 (TaskList 1 [task_A]), db_AB)"
  by (simp add: getAllTasks_def Task_find_def sort_newest_def attach_def db_AB_def task_A_def
      task_B_def Let_def)

lemma js_split_hd: "hd (js_split sep s) = takeWhile (\<lambda>c. c \<noteq> sep) s"
  by (induction s) (auto simp: Let_def)

lemma at_index_first: "xs \<noteq> [] \<Longrightarrow> at_index xs 0 = Some (hd xs)"
  by (cases xs) simp_all

lemma js_split_second:
  "sep \<notin> set w \<Longrightarrow>
     at_index (js_split sep (w @ sep # rest)) (Suc 0) = Some (takeWhile (\<lambda>c. c \<noteq> sep) rest)"
  by (simp add: js_split_prefix at_index_first js_split_nonempty js_split_hd)

lemma first_sep_decomp:
  "sep \<in> set h \<Longrightarrow>
     h = takeWhile (\<lambda>c. c \<noteq> sep) h @ sep # tl (dropWhile (\<lambda>c. c \<noteq> sep) h)
     \<and> sep \<notin> set (takeWhile (\<lambda>c. c \<noteq> sep) h)"
proof -
  assume a: "sep \<in> set h"
  have 1: "sep \<notin> set (takeWhile (\<lambda>c. c \<noteq> sep) h)"
    using set_takeWhileD by fastforce
  have "dropWhile (\<lambda>c. c \<noteq> sep) h \<noteq> []" using a by (simp add: dropWhile_eq_Nil_conv)
  moreover have "hd (dropWhile (\<lambda>c. c \<noteq> sep) h) = sep"
    using hd_dropWhile [OF calculation] by simp
  ultimately have "dropWhile (\<lambda>c. c \<noteq> sep) h = sep # tl (dropWhile (\<lambda>c. c \<noteq> sep) h)"
    by (metis list.collapse)
  then have "h = takeWhile (\<lambda>c. c \<noteq> sep) h @ sep # tl (dropWhile (\<lambda>c. c \<noteq> sep) h)"
    by (metis takeWhile_dropWhile_id)
  with 1 show ?thesis by blast
qed

lemma second_piece:
  assumes "sep \<in> set h"
  shows "at_index (js_split sep h) (Suc 0) =
    Some (takeWhile (\<lambda>c. c \<noteq> sep) (tl (dropWhile (\<lambda>c. c \<noteq> sep) h)))"
proof -
  from first_sep_decomp [OF assms] have
    d: "h = takeWhile (\<lambda>c. c \<noteq> sep) h @ sep # tl (dropWhile (\<lambda>c. c \<noteq> sep) h)"
    and n: "sep \<notin> set (takeWhile (\<lambda>c. c \<noteq> sep) h)" by blast+
  show ?thesis by (subst d) (rule js_split_second [OF n])
qed

lemma verify_tok7: "jwt_verify decode_7 ''s3cret'' 5000 ''tok7'' = Some 7"
  by (simp add: jwt_verify_def jwt_check_def decode_7_def token_7_def)

section \<open>Users and tokens\<close>

lemma find_append_last:
  "\<forall>y\<in>set xs. \<not> P y \<Longrightarrow> P x \<Longrightarrow> find P (xs @ [x]) = Some x"
  by (induction xs) auto

lemma find_Some_ex: "\<exists>x\<in>set xs. P x \<Longrightarrow> \<exists>y. find P xs = Some y"
  by (induction xs) auto

lemma trim_Nil: "trim [] = []" by (simp add: trim_def)

text \<open>
  Two passwords that agree on their first 72 bytes of UTF-8 have the same hash.
\<close>

lemma replicate_72: "replicate 72 k = k # replicate 71 k"
  by (simp add: numeral_eq_Suc)
lemma key_stream_long: "72 \<le> length k \<Longrightarrow> key_stream (k @ x) = take 72 k"
  by (simp add: key_stream_def replicate_72)
lemma utf8_append: "utf8 (a @ b) = utf8 a @ utf8 b"
  by (simp add: utf8_def)
lemma bcrypt_reads_72_bytes:
  "72 \<le> length (utf8 p) \<Longrightarrow> bcrypt_compare (p @ x) (bcrypt_hash (p @ y) salt)"
  by (simp add: bcrypt_compare_def bcrypt_hash_def utf8_append key_stream_long)

lemma bcrypt_compare_hash: "bcrypt_compare p (bcrypt_hash p salt)"
  by (simp add: bcrypt_compare_def bcrypt_hash_def)

lemma generateToken_verifies:
  assumes "generateToken secret now u = Some t" and "decode s = Some t"
    and "clock div 1000 < now div 1000 + 604800"
  shows "jwt_verify decode secret clock s = Some u"
  using assms by (auto simp: generateToken_def jwt_verify_def jwt_check_def split: if_splits)

lemma Task_save_users: "Task_save now old new d = Inr (t, d') \<Longrightarrow> users d' = users d"
  by (auto simp: Task_save_def Let_def split: if_splits)

lemma updateTask_users: "users (snd (updateTask now req d)) = users d"
proof (cases "params_id req")
  case None
  then show ?thesis by (simp add: updateTask_def)
next
  case (Some i)
  note i = this
  show ?thesis
  proof (cases "Task_findOne i (req_userId req) d")
    case None
    then show ?thesis using i by (simp add: updateTask_def)
  next
    case (Some t0)
    show ?thesis
      using Task_save_users
      by (cases "Task_save now t0 (applied (body req) t0) d")
         (auto simp: updateTask_found [OF i Some])
  qed
qed

lemma handler_users: "users (snd (handler r now req d)) = users d"
proof (cases r)
  case GET_tasks
  then show ?thesis by (simp add: getAllTasks_def Let_def)
next
  case POST_tasks
  then show ?thesis by (auto simp: createTask_def Task_create_def Let_def split: sum.splits if_splits)
next
  case PUT_task
  then show ?thesis by (simp add: updateTask_users)
next
  case DELETE_task
  then show ?thesis by (auto simp: deleteTask_def Task_findByIdAndDelete_def split: option.splits)
next
  case PATCH_complete
  then show ?thesis using Task_save_users
    by (auto simp: markTaskCompleted_def split: option.splits sum.splits)
qed

lemma login_db: "snd (login now secret req d) = d"
  by (auto simp: login_def Let_def split: option.splits sum.splits)

lemma wf_emails: "wf_db d \<Longrightarrow> distinct (map email (users d))"
  by (simp add: wf_db_def)

lemma lower_Alice: "toLowerCase (trim ''Alice@X.com'') = ''alice@x.com''"
  by code_simp

lemma castEmail_Alice: "castEmail (JStr ''Alice@X.com'') = Some ''alice@x.com''"
  by (simp add: castEmail_def lower_Alice)

lemma castEmail_ALICE: "castEmail (JStr '' ALICE@x.com'') = Some ''alice@x.com''"
  by code_simp

lemmas auth_defs = register_def login_def User_findOne_def User_create_def castEmail_Alice
  bcrypt_compare_hash
  comparePassword_def generateToken_def credentials_def no_body_def Let_def

lemma register_alice:
  "register 1000 ''salt'' ''s3cret'' (credentials (JStr ''Alice@X.com'') (JStr ''secret1'')) empty_db =
     (Response 201 (AuthInfo ''User registered successfully'' token_alice 0), db_alice)"
  by (simp add: auth_defs empty_db_def db_alice_def alice_def token_alice_def)

lemma reachable_db_alice: "reachable db_alice"
proof -
  have "reachable (snd (register 1000 ''salt'' ''s3cret''
      (credentials (JStr ''Alice@X.com'') (JStr ''secret1'')) empty_db))"
    by (rule reachable.reg [OF reachable.init])
  then show ?thesis unfolding register_alice by simp
qed

section \<open>Failures that end in the catch-all\<close>

text \<open>
  A title of white space only passes the controller's test and is refused by the
  schema: the answer is 500 and nothing is stored. A malformed id makes the query throw.
\<close>

lemma createTask_blank_title:
  "createTask 1000 (as_user 7 None (no_body\<lparr>b_title := JStr ''  '', b_priority := JStr ''High''\<rparr>))
     empty_db = (Response 500 (Message ''Error creating task''), empty_db)"
  by (simp add: ctl_defs as_user_def no_body_def empty_db_def)

lemma updateTask_malformed_id:
  "params_id req = None \<Longrightarrow>
     updateTask now req d = (Response 500 (Message ''Error updating task''), d)"
  by (simp add: updateTask_def Let_def)

section \<open>The claims\<close>

text \<open>
  C8. List ordering: for every authenticated identity, the List operation answers 200
  with exactly the tasks whose owner is that identity (as a multiset: each stored task
  of the owner once, and nothing else), ordered by creation time, newest first.
\<close>

theorem getAllTasks_owned_newest_first:
  "\<exists>ts. getAllTasks req d = (Response 200 (TaskList (length ts) ts), d)
   \<and> mset ts = mset (filter (\<lambda>t. userId t = req_userId req) (tasks d))
   \<and> sorted_wrt (\<lambda>a b. createdAt b \<le> createdAt a) ts"
proof -
  let ?ts = "sort_newest (Task_find (req_userId req) d)"
  have "sorted (map (\<lambda>t. - int (createdAt t)) ?ts)"
    unfolding sort_newest_def by (rule sorted_sort_key)
  then have "sorted_wrt (\<lambda>a b. createdAt b \<le> createdAt a) ?ts"
    by (simp add: sorted_map)
  moreover have "mset ?ts = mset (filter (\<lambda>t. userId t = req_userId req) (tasks d))"
    by (simp add: sort_newest_def Task_find_def)
  moreover have "getAllTasks req d = (Response 200 (TaskList (length ?ts) ?ts), d)"
    by (simp add: getAllTasks_def Let_def)
  ultimately show ?thesis by blast
qed

text \<open>
  C1. Ownership isolation: in every reachable state, for a stored task \<open>t\<close> whose owner
  is not the caller, the caller's List never contains \<open>t\<close>, and the caller's Update,
  Delete and Complete on \<open>t\<close>'s id answer 404 and leave the database as it was.
\<close>

theorem ownership_isolation:
  assumes "reachable d" and "t \<in> set (tasks d)" and "userId t \<noteq> req_userId req"
  shows "(\<forall>c n ts d'. getAllTasks req d = (Response c (TaskList n ts), d') \<longrightarrow> t \<notin> set ts)
    \<and> (params_id req = Some (tid t) \<longrightarrow>
         updateTask now req d =
           (Response 404 (Message ''Task not found or you do not have permission to update it''), d)
       \<and> deleteTask req d =
           (Response 404 (Message ''Task not found or you do not have permission to delete it''), d)
       \<and> markTaskCompleted now req d =
           (Response 404 (Message ''Task not found or you do not have permission to update it''), d))"
proof -
  have none: "Task_findOne (tid t) (req_userId req) d = None"
    using assms by (simp add: findOne_other_owner reachable_wf)
  have "t \<notin> set (sort_newest (Task_find (req_userId req) d))"
    using assms(3) by (simp add: sort_newest_def Task_find_def)
  then have 1: "\<forall>c n ts d'. getAllTasks req d = (Response c (TaskList n ts), d') \<longrightarrow> t \<notin> set ts"
    by (simp add: getAllTasks_def Let_def)
  have 2: "params_id req = Some (tid t) \<longrightarrow>
         updateTask now req d =
           (Response 404 (Message ''Task not found or you do not have permission to update it''), d)"
    using none by (simp add: updateTask_def Let_def)
  have 3: "params_id req = Some (tid t) \<longrightarrow> deleteTask req d =
           (Response 404 (Message ''Task not found or you do not have permission to delete it''), d)"
    using none by (simp add: deleteTask_def)
  have 4: "params_id req = Some (tid t) \<longrightarrow> markTaskCompleted now req d =
           (Response 404 (Message ''Task not found or you do not have permission to update it''), d)"
    using none by (simp add: markTaskCompleted_def)
  show ?thesis using 1 2 3 4 by blast
qed

theorem ownership_isolation_witness:
  "reachable db_AB \<and> task_A \<in> set (tasks db_AB)
   \<and> userId task_A \<noteq> req_userId (as_user 8 (Some 0) no_body)
   \<and> getAllTasks (as_user 8 (Some 0) no_body) db_AB = (Response 200 (TaskList 1 [task_B]), db_AB)
   \<and> task_A \<notin> set [task_B]
   \<and> updateTask 3000 (as_user 8 (Some 0) no_body) db_AB =
           (Response 404 (Message ''Task not found or you do not have permission to update it''), db_AB)
   \<and> deleteTask (as_user 8 (Some 0) no_body) db_AB =
           (Response 404 (Message ''Task not found or you do not have permission to delete it''), db_AB)
   \<and> markTaskCompleted 3000 (as_user 8 (Some 0) no_body) db_AB =
           (Response 404 (Message ''Task not found or you do not have permission to update it''), db_AB)"
proof -
  have h1: "reachable db_AB" by (rule reachable_db_AB)
  have h2: "task_A \<in> set (tasks db_AB)" by (simp add: db_AB_def)
  have h3: "userId task_A \<noteq> req_userId (as_user 8 (Some 0) no_body)"
    by (simp add: task_A_def as_user_def)
  have h4: "params_id (as_user 8 (Some 0) no_body) = Some (tid task_A)"
    by (simp add: task_A_def as_user_def)
  have l: "getAllTasks (as_user 8 (Some 0) no_body) db_AB = (Response 200 (TaskList 1 [task_B]), db_AB)"
    by (simp add: getAllTasks_def Task_find_def sort_newest_def as_user_def db_AB_def task_A_def
        task_B_def Let_def)
  show ?thesis
    using ownership_isolation [OF h1 h2 h3, of 3000] h1 h2 h3 h4 l by simp
qed

text \<open>
  C4. Complete is unconditional and idempotent: in every reachable state, Complete on a
  task of the caller answers 200 with the task's status set to Completed whatever it
  was (nothing else changes but the update time), the result is stored, and a second
  Complete answers 200 with the same Completed task and changes nothing.
\<close>

theorem complete_idempotent:
  assumes "reachable d" and "t \<in> set (tasks d)" and "userId t = req_userId req"
    and "params_id req = Some (tid t)"
  shows "\<exists>t1 d1.
      markTaskCompleted now req d = (Response 200 (TaskDoc ''Task marked as completed'' t1), d1)
    \<and> t1 = t\<lparr>status := Some ''Completed'', updatedAt := updatedAt t1\<rparr>
    \<and> Task_findOne (tid t) (req_userId req) d1 = Some t1
    \<and> markTaskCompleted now' req d1 = (Response 200 (TaskDoc ''Task marked as completed'' t1), d1)"
proof -
  have wf: "wf_db d" using assms(1) by (rule reachable_wf)
  let ?c = "t\<lparr>status := Some ''Completed''\<rparr>"
  have found: "Task_findOne (tid t) (req_userId req) d = Some t"
    using findOne_own [OF wf assms(2)] assms(3) by simp
  have v: "validate ?c" using wf assms(2) by (simp add: wf_validate validate_status)
  obtain t1 d1 where sv: "Task_save now t ?c d = Inr (t1, d1)"
    using save_succeeds [OF v] by blast
  have first: "markTaskCompleted now req d = (Response 200 (TaskDoc ''Task marked as completed'' t1), d1)"
    using assms(4) found sv by (simp add: markTaskCompleted_def)
  have shape: "t1 = t\<lparr>status := Some ''Completed'', updatedAt := updatedAt t1\<rparr>"
    using sv by (auto simp: Task_save_def Let_def split: if_splits)
  have pers: "Task_findOne (tid t) (req_userId req) d1 = Some t1"
    using save_persists [OF wf assms(2) _ _ sv] assms(3) by simp
  have v1: "validate t1" using v sv by (auto simp: Task_save_def Let_def validate_updatedAt split: if_splits)
  have st: "t1\<lparr>status := Some ''Completed''\<rparr> = t1" by (subst (2) shape, subst shape) simp
  have "Task_save now' t1 (t1\<lparr>status := Some ''Completed''\<rparr>) d1 = Inr (t1, d1)"
    using v1 by (simp add: st Task_save_def)
  then have second: "markTaskCompleted now' req d1 = (Response 200 (TaskDoc ''Task marked as completed'' t1), d1)"
    using assms(4) pers by (simp add: markTaskCompleted_def)
  show ?thesis using first shape pers second by blast
qed

theorem complete_idempotent_witness:
  "reachable db_AB \<and> task_B \<in> set (tasks db_AB)
   \<and> userId task_B = req_userId (as_user 8 (Some 1) no_body)
   \<and> params_id (as_user 8 (Some 1) no_body) = Some (tid task_B)
   \<and> markTaskCompleted 3000 (as_user 8 (Some 1) no_body) db_AB =
       (Response 200 (TaskDoc ''Task marked as completed''
          (task_B\<lparr>status := Some ''Completed'', updatedAt := 3000\<rparr>)),
        db_AB\<lparr>tasks := [task_A, task_B\<lparr>status := Some ''Completed'', updatedAt := 3000\<rparr>]\<rparr>)
   \<and> markTaskCompleted 4000 (as_user 8 (Some 1) no_body)
        (db_AB\<lparr>tasks := [task_A, task_B\<lparr>status := Some ''Completed'', updatedAt := 3000\<rparr>]\<rparr>) =
       (Response 200 (TaskDoc ''Task marked as completed''
          (task_B\<lparr>status := Some ''Completed'', updatedAt := 3000\<rparr>)),
        db_AB\<lparr>tasks := [task_A, task_B\<lparr>status := Some ''Completed'', updatedAt := 3000\<rparr>]\<rparr>)"
proof -
  have h1: "reachable db_AB" by (rule reachable_db_AB)
  have h2: "task_B \<in> set (tasks db_AB)" by (simp add: db_AB_def)
  have h3: "userId task_B = req_userId (as_user 8 (Some 1) no_body)"
    by (simp add: task_B_def as_user_def)
  have h4: "params_id (as_user 8 (Some 1) no_body) = Some (tid task_B)"
    by (simp add: task_B_def as_user_def)
  have first: "markTaskCompleted 3000 (as_user 8 (Some 1) no_body) db_AB =
       (Response 200 (TaskDoc ''Task marked as completed''
          (task_B\<lparr>status := Some ''Completed'', updatedAt := 3000\<rparr>)),
        db_AB\<lparr>tasks := [task_A, task_B\<lparr>status := Some ''Completed'', updatedAt := 3000\<rparr>]\<rparr>)"
    by (simp add: markTaskCompleted_def Task_findOne_def Task_save_def as_user_def db_AB_def
        task_A_def task_B_def validate_def required_def priorities_def statuses_def Let_def)
  from complete_idempotent [OF h1 h2 h3 h4, of 3000 4000] obtain t1 d1 where
    a: "markTaskCompleted 3000 (as_user 8 (Some 1) no_body) db_AB =
          (Response 200 (TaskDoc ''Task marked as completed'' t1), d1)"
    and b: "markTaskCompleted 4000 (as_user 8 (Some 1) no_body) d1 =
          (Response 200 (TaskDoc ''Task marked as completed'' t1), d1)"
    by blast
  from a first have "t1 = task_B\<lparr>status := Some ''Completed'', updatedAt := 3000\<rparr>"
    and "d1 = db_AB\<lparr>tasks := [task_A, task_B\<lparr>status := Some ''Completed'', updatedAt := 3000\<rparr>]\<rparr>"
    by simp_all
  with b first h1 h2 h3 h4 show ?thesis by simp
qed

text \<open>
  C2, as stated, fails: the schema trims the description. A create request with title
  \<open>A\<close>, priority \<open>High\<close> and description \<open>" x"\<close> (a leading space) answers 201 with
  a task whose description is \<open>"x"\<close>, not the supplied text.
\<close>

theorem createTask_trims_description_counterexample:
  "createTask 1000
     (as_user 7 None (no_body\<lparr>b_title := JStr ''A'', b_description := JStr '' x'',
        b_priority := JStr ''High''\<rparr>)) empty_db
   = (Response 201 (TaskDoc ''Task created successfully''
        \<lparr>tid = 0, title = Some ''A'', description = Some ''x'', priority = Some ''High'',
         status = Some ''Pending'', userId = 7, createdAt = 1000, updatedAt = 1000\<rparr>),
      \<lparr>users = [], tasks = [\<lparr>tid = 0, title = Some ''A'', description = Some ''x'',
         priority = Some ''High'', status = Some ''Pending'', userId = 7, createdAt = 1000,
         updatedAt = 1000\<rparr>], nextId = 1\<rparr>)
   \<and> Some ''x'' \<noteq> castString (JStr '' x'')"
  by (simp add: ctl_defs as_user_def no_body_def empty_db_def)

text \<open>
  C2, amended. Create contract: if the title is falsy (missing, null, empty or false) or
  the priority is not one of the strings High, Medium, Low, the answer is 400 and the
  database is unchanged; otherwise, when the title is not blank after trimming, the
  answer is 201 and the created task is appended with status Pending, the caller as
  owner, title and description as supplied but trimmed (description empty when absent
  or falsy), and the supplied priority; a status or owner supplied in the body changes
  nothing.
\<close>

theorem createTask_contract:
  "(\<not> truthy (b_title (body req)) \<or> \<not> js_includes priorities (b_priority (body req)) \<longrightarrow>
      code (fst (createTask now req d)) = 400 \<and> snd (createTask now req d) = d)
   \<and> (truthy (b_title (body req)) \<and> js_includes priorities (b_priority (body req))
        \<and> castTrim (b_title (body req)) \<noteq> Some [] \<longrightarrow>
      (\<exists>t. createTask now req d =
              (Response 201 (TaskDoc ''Task created successfully'' t),
               d\<lparr>tasks := tasks d @ [t], nextId := Suc (nextId d)\<rparr>)
        \<and> status t = Some ''Pending'' \<and> userId t = req_userId req
        \<and> title t = castTrim (b_title (body req))
        \<and> description t = (if truthy (b_description (body req))
                            then castTrim (b_description (body req)) else Some [])
        \<and> priority t = castString (b_priority (body req))
        \<and> tid t = nextId d \<and> createdAt t = now))
   \<and> createTask now (req\<lparr>body := (body req)\<lparr>b_status := s, b_userId := w\<rparr>\<rparr>) d = createTask now req d"
proof (intro conjI impI)
  assume "\<not> truthy (b_title (body req)) \<or> \<not> js_includes priorities (b_priority (body req))"
  then show "code (fst (createTask now req d)) = 400" and "snd (createTask now req d) = d"
    by (auto simp: createTask_def Let_def)
next
  assume a: "truthy (b_title (body req)) \<and> js_includes priorities (b_priority (body req))
        \<and> castTrim (b_title (body req)) \<noteq> Some []"
  then have tp: "truthy (b_priority (body req))" by (simp add: includes_priorities_truthy)
  from a show "\<exists>t. createTask now req d =
              (Response 201 (TaskDoc ''Task created successfully'' t),
               d\<lparr>tasks := tasks d @ [t], nextId := Suc (nextId d)\<rparr>)
        \<and> status t = Some ''Pending'' \<and> userId t = req_userId req
        \<and> title t = castTrim (b_title (body req))
        \<and> description t = (if truthy (b_description (body req))
                            then castTrim (b_description (body req)) else Some [])
        \<and> priority t = castString (b_priority (body req))
        \<and> tid t = nextId d \<and> createdAt t = now"
    using tp by (simp add: createTask_def Let_def Task_create_ok castTrim_descr_default)
next
  show "createTask now (req\<lparr>body := (body req)\<lparr>b_status := s, b_userId := w\<rparr>\<rparr>) d = createTask now req d"
    by (simp add: createTask_def Let_def)
qed

theorem createTask_contract_witness:
  "truthy (JStr '' Buy milk '') \<and> js_includes priorities (JStr ''Low'')
   \<and> castTrim (JStr '' Buy milk '') \<noteq> Some []
   \<and> createTask 5000
       (as_user 8 None (no_body\<lparr>b_title := JStr '' Buy milk '', b_priority := JStr ''Low'',
          b_status := JStr ''Completed'', b_userId := JStr ''7''\<rparr>)) db_A
     = (Response 201 (TaskDoc ''Task created successfully''
          \<lparr>tid = 1, title = Some ''Buy milk'', description = Some [], priority = Some ''Low'',
           status = Some ''Pending'', userId = 8, createdAt = 5000, updatedAt = 5000\<rparr>),
        db_A\<lparr>tasks := [task_A, \<lparr>tid = 1, title = Some ''Buy milk'', description = Some [],
           priority = Some ''Low'', status = Some ''Pending'', userId = 8, createdAt = 5000,
           updatedAt = 5000\<rparr>], nextId := 2\<rparr>)
   \<and> \<not> truthy (JStr []) 
   \<and> code (fst (createTask 5000 (as_user 8 None (no_body\<lparr>b_priority := JStr ''Low'', b_title := JStr []\<rparr>)) db_A)) = 400
   \<and> snd (createTask 5000 (as_user 8 None (no_body\<lparr>b_priority := JStr ''Low'', b_title := JStr []\<rparr>)) db_A) = db_A"
proof -
  let ?req = "as_user 8 None (no_body\<lparr>b_title := JStr '' Buy milk '', b_priority := JStr ''Low'',
          b_status := JStr ''Completed'', b_userId := JStr ''7''\<rparr>)"
  let ?bad = "as_user 8 None (no_body\<lparr>b_priority := JStr ''Low'', b_title := JStr []\<rparr>)"
  have h: "truthy (b_title (body ?req)) \<and> js_includes priorities (b_priority (body ?req))
        \<and> castTrim (b_title (body ?req)) \<noteq> Some []"
    by (simp add: as_user_def no_body_def js_includes_def priorities_def castTrim_def trim_def is_space_def)
  have g: "\<not> truthy (b_title (body ?bad)) \<or> \<not> js_includes priorities (b_priority (body ?bad))"
    by (simp add: as_user_def no_body_def)
  have tr: "castTrim (JStr '' Buy milk '') = Some ''Buy milk''"
    by (simp add: castTrim_def trim_def is_space_def)
  from createTask_contract [of ?req 5000 db_A] h obtain t where
    t: "createTask 5000 ?req db_A = (Response 201 (TaskDoc ''Task created successfully'' t),
               db_A\<lparr>tasks := tasks db_A @ [t], nextId := Suc (nextId db_A)\<rparr>)"
    "status t = Some ''Pending''" "userId t = req_userId ?req" "title t = castTrim (b_title (body ?req))"
    "description t = (if truthy (b_description (body ?req))
                            then castTrim (b_description (body ?req)) else Some [])"
    "priority t = castString (b_priority (body ?req))" "tid t = nextId db_A" "createdAt t = 5000"
    by blast
  have c: "createTask 5000 ?req db_A = (Response 201 (TaskDoc ''Task created successfully''
          \<lparr>tid = 1, title = Some ''Buy milk'', description = Some [], priority = Some ''Low'',
           status = Some ''Pending'', userId = 8, createdAt = 5000, updatedAt = 5000\<rparr>),
        db_A\<lparr>tasks := [task_A, \<lparr>tid = 1, title = Some ''Buy milk'', description = Some [],
           priority = Some ''Low'', status = Some ''Pending'', userId = 8, createdAt = 5000,
           updatedAt = 5000\<rparr>], nextId := 2\<rparr>)"
    by (simp add: ctl_defs as_user_def no_body_def db_A_def)
  from createTask_contract [of ?bad 5000 db_A] g
  have b: "code (fst (createTask 5000 ?bad db_A)) = 400 \<and> snd (createTask 5000 ?bad db_A) = db_A"
    by blast
  show ?thesis using h c b t by (simp add: as_user_def no_body_def)
qed

text \<open>
  C3, as stated, fails: a field is applied only when it is truthy (description: when it
  is not undefined), and the enum check is behind the same test. An update whose body
  holds the priority \<open>""\<close>, a value outside the enum, answers 200 and changes nothing.
\<close>

theorem updateTask_empty_priority_counterexample:
  "updateTask 3000 (as_user 8 (Some 1) (no_body\<lparr>b_priority := JStr []\<rparr>)) db_AB =
     (Response 200 (TaskDoc ''Task updated successfully'' task_B), db_AB)
   \<and> \<not> js_includes priorities (JStr [])"
  by (simp add: upd_defs)

text \<open>
  C3, amended. Update contract, in a reachable state and with a well-formed id: if no
  task has this id and the caller as owner the answer is 404; otherwise a truthy
  priority or status outside its enum gives 400; otherwise, when a supplied title is
  not blank after trimming, the answer is 200 and the stored task has the title,
  priority and status of the body where these are truthy, the description of the body
  where it is not undefined (title and description trimmed), and its former values
  elsewhere; in particular a Completed task is set back to Pending by status Pending.
\<close>

theorem updateTask_contract:
  assumes "reachable d" and "params_id req = Some i"
  shows "(Task_findOne i (req_userId req) d = None \<longrightarrow>
           updateTask now req d =
             (Response 404 (Message ''Task not found or you do not have permission to update it''), d))
    \<and> (\<forall>t0. Task_findOne i (req_userId req) d = Some t0 \<longrightarrow>
          (bad_enum priorities (b_priority (body req)) \<or> bad_enum statuses (b_status (body req)) \<longrightarrow>
             code (fst (updateTask now req d)) = 400)
        \<and> (\<not> bad_enum priorities (b_priority (body req)) \<and> \<not> bad_enum statuses (b_status (body req))
            \<and> (truthy (b_title (body req)) \<longrightarrow> castTrim (b_title (body req)) \<noteq> Some []) \<longrightarrow>
             (\<exists>t d'. updateTask now req d =
                        (Response 200 (TaskDoc ''Task updated successfully'' t), d')
                \<and> title t = (if truthy (b_title (body req))
                              then castTrim (b_title (body req)) else title t0)
                \<and> description t = (if b_description (body req) \<noteq> JUndefined
                                    then castTrim (b_description (body req)) else description t0)
                \<and> priority t = (if truthy (b_priority (body req))
                                 then castString (b_priority (body req)) else priority t0)
                \<and> status t = (if truthy (b_status (body req))
                               then castString (b_status (body req)) else status t0)
                \<and> tid t = tid t0 \<and> userId t = userId t0 \<and> createdAt t = createdAt t0
                \<and> Task_findOne i (req_userId req) d' = Some t
                \<and> (status t0 = Some ''Completed'' \<and> b_status (body req) = JStr ''Pending'' \<longrightarrow>
                     status t = Some ''Pending''))))"
proof (intro conjI impI allI)
  assume "Task_findOne i (req_userId req) d = None"
  then show "updateTask now req d =
             (Response 404 (Message ''Task not found or you do not have permission to update it''), d)"
    using assms(2) by (simp add: updateTask_def Let_def)
next
  fix t0
  assume f: "Task_findOne i (req_userId req) d = Some t0"
    and "bad_enum priorities (b_priority (body req)) \<or> bad_enum statuses (b_status (body req))"
  then show "code (fst (updateTask now req d)) = 400"
    by (auto simp: updateTask_found [OF assms(2) f])
next
  fix t0
  assume f: "Task_findOne i (req_userId req) d = Some t0"
    and ok: "\<not> bad_enum priorities (b_priority (body req)) \<and> \<not> bad_enum statuses (b_status (body req))
            \<and> (truthy (b_title (body req)) \<longrightarrow> castTrim (b_title (body req)) \<noteq> Some [])"
  have wf: "wf_db d" using assms(1) by (rule reachable_wf)
  have mem: "t0 \<in> set (tasks d)" and id: "tid t0 = i" and own: "userId t0 = req_userId req"
    using findOne_D [OF f] by simp_all
  let ?n = "applied (body req) t0"
  have "validate ?n" using ok wf mem by (simp add: validate_applied wf_validate)
  then obtain t d' where sv: "Task_save now t0 ?n d = Inr (t, d')"
    using save_succeeds by blast
  have res: "updateTask now req d = (Response 200 (TaskDoc ''Task updated successfully'' t), d')"
    using ok sv by (simp add: updateTask_found [OF assms(2) f])
  have pers: "Task_findOne i (req_userId req) d' = Some t"
    using save_persists [OF wf mem _ _ sv] id own by (simp add: applied_keeps)
  show "\<exists>t d'. updateTask now req d =
                        (Response 200 (TaskDoc ''Task updated successfully'' t), d')
                \<and> title t = (if truthy (b_title (body req))
                              then castTrim (b_title (body req)) else title t0)
                \<and> description t = (if b_description (body req) \<noteq> JUndefined
                                    then castTrim (b_description (body req)) else description t0)
                \<and> priority t = (if truthy (b_priority (body req))
                                 then castString (b_priority (body req)) else priority t0)
                \<and> status t = (if truthy (b_status (body req))
                               then castString (b_status (body req)) else status t0)
                \<and> tid t = tid t0 \<and> userId t = userId t0 \<and> createdAt t = createdAt t0
                \<and> Task_findOne i (req_userId req) d' = Some t
                \<and> (status t0 = Some ''Completed'' \<and> b_status (body req) = JStr ''Pending'' \<longrightarrow>
                     status t = Some ''Pending'')"
    using res pers save_fields' [OF sv]
    by (intro exI [of _ t] exI [of _ d']) (simp add: applied_fields applied_keeps)
qed

theorem updateTask_contract_witness:
  "reachable db_AB_done
   \<and> params_id (as_user 8 (Some 5) no_body) = Some 5
   \<and> Task_findOne 5 8 db_AB_done = None
   \<and> updateTask 4000 (as_user 8 (Some 5) no_body) db_AB_done =
       (Response 404 (Message ''Task not found or you do not have permission to update it''), db_AB_done)
   \<and> Task_findOne 1 8 db_AB_done = Some task_B_done
   \<and> bad_enum priorities (JStr ''Urgent'')
   \<and> code (fst (updateTask 4000
        (as_user 8 (Some 1) (no_body\<lparr>b_title := JStr ''X'', b_priority := JStr ''Urgent''\<rparr>))
        db_AB_done)) = 400
   \<and> \<not> bad_enum priorities JUndefined \<and> \<not> bad_enum statuses (JStr ''Pending'')
   \<and> castTrim (JStr '' B2 '') \<noteq> Some []
   \<and> status task_B_done = Some ''Completed''
   \<and> updateTask 4000
        (as_user 8 (Some 1) (no_body\<lparr>b_title := JStr '' B2 '', b_status := JStr ''Pending''\<rparr>))
        db_AB_done =
       (Response 200 (TaskDoc ''Task updated successfully''
          (task_B\<lparr>title := Some ''B2'', status := Some ''Pending'', updatedAt := 4000\<rparr>)),
        db_AB\<lparr>tasks := [task_A, task_B\<lparr>title := Some ''B2'', status := Some ''Pending'',
          updatedAt := 4000\<rparr>]\<rparr>)"
proof -
  let ?r404 = "as_user 8 (Some 5) no_body"
  let ?r400 = "as_user 8 (Some 1) (no_body\<lparr>b_title := JStr ''X'', b_priority := JStr ''Urgent''\<rparr>)"
  let ?r200 = "as_user 8 (Some 1) (no_body\<lparr>b_title := JStr '' B2 '', b_status := JStr ''Pending''\<rparr>)"
  have r: "reachable db_AB_done" by (rule reachable_db_AB_done)
  have p5: "params_id ?r404 = Some 5" by (simp add: as_user_def)
  have n5: "Task_findOne 5 (req_userId ?r404) db_AB_done = None" by (simp add: upd_defs)
  have A: "updateTask 4000 ?r404 db_AB_done =
       (Response 404 (Message ''Task not found or you do not have permission to update it''), db_AB_done)"
    using updateTask_contract [OF r p5, of 4000] n5 by blast
  have p1: "params_id ?r400 = Some 1" by (simp add: as_user_def)
  have f1: "Task_findOne 1 (req_userId ?r400) db_AB_done = Some task_B_done" by (simp add: upd_defs)
  have bad: "bad_enum priorities (b_priority (body ?r400))" by (simp add: upd_defs)
  have B: "code (fst (updateTask 4000 ?r400 db_AB_done)) = 400"
    using updateTask_contract [OF r p1, of 4000] f1 bad by blast
  have p2: "params_id ?r200 = Some 1" by (simp add: as_user_def)
  have f2: "Task_findOne 1 (req_userId ?r200) db_AB_done = Some task_B_done" by (simp add: upd_defs)
  have ok: "\<not> bad_enum priorities (b_priority (body ?r200)) \<and> \<not> bad_enum statuses (b_status (body ?r200))
            \<and> (truthy (b_title (body ?r200)) \<longrightarrow> castTrim (b_title (body ?r200)) \<noteq> Some [])"
    by (simp add: upd_defs)
  have C: "updateTask 4000 ?r200 db_AB_done =
       (Response 200 (TaskDoc ''Task updated successfully''
          (task_B\<lparr>title := Some ''B2'', status := Some ''Pending'', updatedAt := 4000\<rparr>)),
        db_AB\<lparr>tasks := [task_A, task_B\<lparr>title := Some ''B2'', status := Some ''Pending'',
          updatedAt := 4000\<rparr>]\<rparr>)"
    by (simp add: upd_defs)
  have D: "\<exists>t d'. updateTask 4000 ?r200 db_AB_done =
        (Response 200 (TaskDoc ''Task updated successfully'' t), d') \<and> status t = Some ''Pending''"
    using updateTask_contract [OF r p2, of 4000] f2 ok by (simp add: as_user_def no_body_def) blast
  show ?thesis
    using r A B C D by (simp add: upd_defs)
qed

text \<open>
  C9, as stated, fails: a falsy status outside the enum is skipped, not refused. An
  update with title \<open>New\<close> and status \<open>""\<close> answers 200 and stores the new title.
\<close>

theorem updateTask_empty_status_counterexample:
  "updateTask 3000 (as_user 8 (Some 1) (no_body\<lparr>b_title := JStr ''New'', b_status := JStr []\<rparr>)) db_AB =
     (Response 200 (TaskDoc ''Task updated successfully'' (task_B\<lparr>title := Some ''New'', updatedAt := 3000\<rparr>)),
      db_AB\<lparr>tasks := [task_A, task_B\<lparr>title := Some ''New'', updatedAt := 3000\<rparr>]\<rparr>)
   \<and> \<not> js_includes statuses (JStr [])
   \<and> task_B\<lparr>title := Some ''New'', updatedAt := 3000\<rparr> \<noteq> task_B"
  by (simp add: upd_defs)

text \<open>
  C9, amended. Update atomicity on validation failure: when the caller's task is found
  and the body holds a truthy priority or a truthy status outside its enum, the answer
  is 400 and the database is unchanged, whatever title and description the body holds.
\<close>

theorem updateTask_rejects_atomically:
  assumes "params_id req = Some i" and "Task_findOne i (req_userId req) d = Some t0"
    and "bad_enum priorities (b_priority (body req)) \<or> bad_enum statuses (b_status (body req))"
  shows "code (fst (updateTask now req d)) = 400 \<and> snd (updateTask now req d) = d
     \<and> Task_findOne i (req_userId req) (snd (updateTask now req d)) = Some t0"
  using assms(2,3) by (auto simp: updateTask_found [OF assms(1,2)])

theorem updateTask_rejects_atomically_witness:
  "params_id (as_user 8 (Some 1) (no_body\<lparr>b_title := JStr ''New'', b_description := JStr ''text'',
       b_status := JStr ''Done''\<rparr>)) = Some 1
   \<and> Task_findOne 1 8 db_AB = Some task_B
   \<and> bad_enum statuses (JStr ''Done'')
   \<and> code (fst (updateTask 3000 (as_user 8 (Some 1) (no_body\<lparr>b_title := JStr ''New'',
       b_description := JStr ''text'', b_status := JStr ''Done''\<rparr>)) db_AB)) = 400
   \<and> snd (updateTask 3000 (as_user 8 (Some 1) (no_body\<lparr>b_title := JStr ''New'',
       b_description := JStr ''text'', b_status := JStr ''Done''\<rparr>)) db_AB) = db_AB"
proof -
  let ?req = "as_user 8 (Some 1) (no_body\<lparr>b_title := JStr ''New'', b_description := JStr ''text'',
       b_status := JStr ''Done''\<rparr>)"
  have p: "params_id ?req = Some 1" by (simp add: as_user_def)
  have f: "Task_findOne 1 (req_userId ?req) db_AB = Some task_B" by (simp add: upd_defs)
  have bad: "bad_enum priorities (b_priority (body ?req)) \<or> bad_enum statuses (b_status (body ?req))"
    by (simp add: upd_defs)
  show ?thesis
    using updateTask_rejects_atomically [OF p f bad, of 3000] p f bad by (simp add: upd_defs)
qed

text \<open>
  C5. Access guard gate, for every protected task route: without an Authorization
  header the answer is 401 and the database is untouched; when the token taken from
  the header is malformed, carries a bad signature or has expired, the answer is 401
  and the database is untouched; an answer other than 401 comes from the route's
  handler, run on the request with \<open>req.userId\<close> set to the identity of a token that
  verified; a token that verifies always leads to exactly that handler call; and the
  request handed on carries that identity as \<open>req.userId\<close> and the header, the id
  and the body of the request that came in.
\<close>

theorem access_guard_gate:
  "(authorization req = None \<longrightarrow>
      router decode secret now r req d =
        (Response 401 (Message ''No token provided. Authorization denied.''), d))
   \<and> (\<forall>h tok. authorization req = Some h \<and> at_index (js_split CHR '' '' h) 1 = Some tok
         \<and> (decode tok = None
             \<or> (\<exists>t. decode tok = Some t \<and> (signed_with t \<noteq> secret \<or> exp t \<le> now div 1000)))
       \<longrightarrow> code (fst (router decode secret now r req d)) = 401
           \<and> snd (router decode secret now r req d) = d)
   \<and> (\<forall>res d'. router decode secret now r req d = (res, d') \<and> code res \<noteq> 401 \<longrightarrow>
         (\<exists>h tok t. authorization req = Some h \<and> at_index (js_split CHR '' '' h) 1 = Some tok
            \<and> decode tok = Some t \<and> signed_with t = secret \<and> now div 1000 < exp t
            \<and> (res, d') = handler r now (attach req (tok_userId t)) d))
   \<and> (\<forall>h tok t. authorization req = Some h \<and> at_index (js_split CHR '' '' h) 1 = Some tok
         \<and> tok \<noteq> [] \<and> decode tok = Some t \<and> secret \<noteq> [] \<and> signed_with t = secret
         \<and> now div 1000 < exp t
       \<longrightarrow> router decode secret now r req d = handler r now (attach req (tok_userId t)) d)
   \<and> (\<forall>u. req_userId (attach req u) = u \<and> authorization (attach req u) = authorization req
         \<and> params_id (attach req u) = params_id req \<and> body (attach req u) = body req)"
proof (intro conjI allI impI)
  assume "authorization req = None"
  then show "router decode secret now r req d =
        (Response 401 (Message ''No token provided. Authorization denied.''), d)"
    by (simp add: router_def authMiddleware_def)
next
  fix h tok
  assume a: "authorization req = Some h \<and> at_index (js_split CHR '' '' h) 1 = Some tok
         \<and> (decode tok = None
             \<or> (\<exists>t. decode tok = Some t \<and> (signed_with t \<noteq> secret \<or> exp t \<le> now div 1000)))"
  then have "jwt_verify decode secret now tok = None"
    by (auto simp: jwt_verify_def jwt_check_def)
  with a have "\<And>areq. authMiddleware decode secret now req \<noteq> Inr areq"
    unfolding authMiddleware_Inr by auto
  then obtain res where "authMiddleware decode secret now req = Inl res"
    by (cases "authMiddleware decode secret now req") auto
  then show "code (fst (router decode secret now r req d)) = 401"
    and "snd (router decode secret now r req d) = d"
    by (simp_all add: router_def authMiddleware_Inl)
next
  fix res d'
  assume a: "router decode secret now r req d = (res, d') \<and> code res \<noteq> 401"
  show "\<exists>h tok t. authorization req = Some h \<and> at_index (js_split CHR '' '' h) 1 = Some tok
            \<and> decode tok = Some t \<and> signed_with t = secret \<and> now div 1000 < exp t
            \<and> (res, d') = handler r now (attach req (tok_userId t)) d"
  proof (cases "authMiddleware decode secret now req")
    case (Inl x)
    then have "res = x" using a by (simp add: router_def)
    then show ?thesis using a authMiddleware_Inl [OF Inl] by simp
  next
    case (Inr areq)
    then obtain h tok u where h: "authorization req = Some h"
      "at_index (js_split CHR '' '' h) 1 = Some tok" "jwt_verify decode secret now tok = Some u"
      "areq = attach req u"
      unfolding authMiddleware_Inr by blast
    from h(3) obtain t where t: "decode tok = Some t" "signed_with t = secret"
      "now div 1000 < exp t" "u = tok_userId t"
      unfolding jwt_verify_Some by blast
    have "(res, d') = handler r now (attach req (tok_userId t)) d"
      using a Inr h(4) t(4) by (simp add: router_def)
    then show ?thesis using h t by blast
  qed
next
  fix h tok t
  assume a: "authorization req = Some h \<and> at_index (js_split CHR '' '' h) 1 = Some tok
         \<and> tok \<noteq> [] \<and> decode tok = Some t \<and> secret \<noteq> [] \<and> signed_with t = secret
         \<and> now div 1000 < exp t"
  then have "jwt_verify decode secret now tok = Some (tok_userId t)"
    unfolding jwt_verify_Some by blast
  with a have "authMiddleware decode secret now req = Inr (attach req (tok_userId t))"
    unfolding authMiddleware_Inr by blast
  then show "router decode secret now r req d = handler r now (attach req (tok_userId t)) d"
    by (simp add: router_def)
next
  fix u
  show "req_userId (attach req u) = u" and "authorization (attach req u) = authorization req"
    and "params_id (attach req u) = params_id req" and "body (attach req u) = body req"
    by (simp_all add: attach_def)
qed

theorem access_guard_gate_witness:
  "authorization (with_header None) = None
   \<and> router decode_7 ''s3cret'' 5000 PUT_task (with_header None) db_AB =
        (Response 401 (Message ''No token provided. Authorization denied.''), db_AB)
   \<and> authorization (with_header (Some ''Bearer bogus'')) = Some ''Bearer bogus''
   \<and> at_index (js_split CHR '' '' ''Bearer bogus'') 1 = Some ''bogus''
   \<and> decode_7 ''bogus'' = None
   \<and> code (fst (router decode_7 ''s3cret'' 5000 GET_tasks (with_header (Some ''Bearer bogus'')) db_AB)) = 401
   \<and> snd (router decode_7 ''s3cret'' 5000 GET_tasks (with_header (Some ''Bearer bogus'')) db_AB) = db_AB
   \<and> at_index (js_split CHR '' '' ''Bearer tok7'') 1 = Some ''tok7''
   \<and> decode_7 ''tok7'' = Some token_7 \<and> exp token_7 \<le> 604801000 div 1000
   \<and> code (fst (router decode_7 ''s3cret'' 604801000 GET_tasks (with_header (Some ''Bearer tok7'')) db_AB)) = 401
   \<and> signed_with token_7 = ''s3cret'' \<and> 5000 div 1000 < exp token_7
   \<and> router decode_7 ''s3cret'' 5000 GET_tasks (with_header (Some ''Bearer tok7'')) db_AB =
        (Response 200 (TaskList 1 [task_A]), db_AB)
   \<and> at_index (js_split CHR '' '' ''Bearer tok8'') 1 = Some ''tok8''
   \<and> decode_78 ''tok8'' = Some token_8 \<and> signed_with token_8 = ''s3cret''
   \<and> 5000 div 1000 < exp token_8 \<and> tok_userId token_8 = 8
   \<and> req_userId (attach (with_header (Some ''Bearer tok8'')) 8) = 8
   \<and> router decode_78 ''s3cret'' 5000 GET_tasks (with_header (Some ''Bearer tok8'')) db_AB =
        (Response 200 (TaskList 1 [task_B]), db_AB)"
proof -
  let ?none = "with_header None"
  let ?bogus = "with_header (Some ''Bearer bogus'')"
  let ?good = "with_header (Some ''Bearer tok7'')"
  have n: "authorization ?none = None" by (simp add: with_header_def)
  have A: "router decode_7 ''s3cret'' 5000 PUT_task ?none db_AB =
        (Response 401 (Message ''No token provided. Authorization denied.''), db_AB)"
    using access_guard_gate [of ?none decode_7 "''s3cret''" 5000 PUT_task db_AB] n by blast
  have b: "authorization ?bogus = Some ''Bearer bogus''
     \<and> at_index (js_split CHR '' '' ''Bearer bogus'') 1 = Some ''bogus''
     \<and> (decode_7 ''bogus'' = None
         \<or> (\<exists>t. decode_7 ''bogus'' = Some t \<and> (signed_with t \<noteq> ''s3cret'' \<or> exp t \<le> 5000 div 1000)))"
    by (simp add: with_header_def split_Bearer_bogus decode_7_def)
  have B: "code (fst (router decode_7 ''s3cret'' 5000 GET_tasks ?bogus db_AB)) = 401
     \<and> snd (router decode_7 ''s3cret'' 5000 GET_tasks ?bogus db_AB) = db_AB"
    using access_guard_gate [of ?bogus decode_7 "''s3cret''" 5000 GET_tasks db_AB] b by blast
  have e: "authorization ?good = Some ''Bearer tok7''
     \<and> at_index (js_split CHR '' '' ''Bearer tok7'') 1 = Some ''tok7''
     \<and> (decode_7 ''tok7'' = None
         \<or> (\<exists>t. decode_7 ''tok7'' = Some t \<and> (signed_with t \<noteq> ''s3cret'' \<or> exp t \<le> 604801000 div 1000)))"
    by (simp add: with_header_def split_Bearer_tok7 decode_7_def token_7_def)
  have E: "code (fst (router decode_7 ''s3cret'' 604801000 GET_tasks ?good db_AB)) = 401"
    using access_guard_gate [of ?good decode_7 "''s3cret''" 604801000 GET_tasks db_AB] e by blast
  have g: "authorization ?good = Some ''Bearer tok7''
     \<and> at_index (js_split CHR '' '' ''Bearer tok7'') 1 = Some ''tok7''
     \<and> ''tok7'' \<noteq> [] \<and> decode_7 ''tok7'' = Some token_7 \<and> ''s3cret'' \<noteq> []
     \<and> signed_with token_7 = ''s3cret'' \<and> 5000 div 1000 < exp token_7"
    by (simp add: with_header_def split_Bearer_tok7 decode_7_def token_7_def)
  have "router decode_7 ''s3cret'' 5000 GET_tasks ?good db_AB =
      handler GET_tasks 5000 (attach ?good (tok_userId token_7)) db_AB"
    using access_guard_gate [of ?good decode_7 "''s3cret''" 5000 GET_tasks db_AB] g by blast
  then have G: "router decode_7 ''s3cret'' 5000 GET_tasks ?good db_AB =
        (Response 200 (TaskList 1 [task_A]), db_AB)"
    using getAllTasks_7 by (simp add: token_7_def)
  let ?eight = "with_header (Some ''Bearer tok8'')"
  have s8: "js_split CHR '' '' ''Bearer tok8'' = [''Bearer'', ''tok8'']" by (simp add: Let_def)
  have k: "authorization ?eight = Some ''Bearer tok8''
     \<and> at_index (js_split CHR '' '' ''Bearer tok8'') 1 = Some ''tok8''
     \<and> ''tok8'' \<noteq> [] \<and> decode_78 ''tok8'' = Some token_8 \<and> ''s3cret'' \<noteq> []
     \<and> signed_with token_8 = ''s3cret'' \<and> 5000 div 1000 < exp token_8"
    by (simp add: with_header_def s8 decode_78_def token_8_def)
  have K: "router decode_78 ''s3cret'' 5000 GET_tasks ?eight db_AB =
      handler GET_tasks 5000 (attach ?eight (tok_userId token_8)) db_AB"
    using access_guard_gate [of ?eight decode_78 "''s3cret''" 5000 GET_tasks db_AB] k by blast
  have P: "req_userId (attach ?eight 8) = 8"
    using access_guard_gate [of ?eight decode_78 "''s3cret''" 5000 GET_tasks db_AB] by blast
  have "getAllTasks (attach ?eight 8) db_AB = (Response 200 (TaskList 1 [task_B]), db_AB)"
    unfolding getAllTasks_def P
    by (simp add: Task_find_def sort_newest_def db_AB_def task_A_def task_B_def Let_def)
  then have H: "router decode_78 ''s3cret'' 5000 GET_tasks ?eight db_AB =
        (Response 200 (TaskList 1 [task_B]), db_AB)"
    using K by (simp add: token_8_def)
  have c1: "authorization (with_header None) = None
   \<and> router decode_7 ''s3cret'' 5000 PUT_task (with_header None) db_AB =
        (Response 401 (Message ''No token provided. Authorization denied.''), db_AB)
   \<and> authorization (with_header (Some ''Bearer bogus'')) = Some ''Bearer bogus''
   \<and> at_index (js_split CHR '' '' ''Bearer bogus'') 1 = Some ''bogus''
   \<and> decode_7 ''bogus'' = None
   \<and> code (fst (router decode_7 ''s3cret'' 5000 GET_tasks (with_header (Some ''Bearer bogus'')) db_AB)) = 401
   \<and> snd (router decode_7 ''s3cret'' 5000 GET_tasks (with_header (Some ''Bearer bogus'')) db_AB) = db_AB
   \<and> at_index (js_split CHR '' '' ''Bearer tok7'') 1 = Some ''tok7''
   \<and> decode_7 ''tok7'' = Some token_7 \<and> exp token_7 \<le> 604801000 div 1000
   \<and> code (fst (router decode_7 ''s3cret'' 604801000 GET_tasks (with_header (Some ''Bearer tok7'')) db_AB)) = 401
   \<and> signed_with token_7 = ''s3cret'' \<and> 5000 div 1000 < exp token_7
   \<and> router decode_7 ''s3cret'' 5000 GET_tasks (with_header (Some ''Bearer tok7'')) db_AB =
        (Response 200 (TaskList 1 [task_A]), db_AB)"
    using n A B E G
    by (simp add: with_header_def split_Bearer_bogus split_Bearer_tok7 decode_7_def token_7_def)
  have c2: "at_index (js_split CHR '' '' ''Bearer tok8'') 1 = Some ''tok8''
   \<and> decode_78 ''tok8'' = Some token_8 \<and> signed_with token_8 = ''s3cret''
   \<and> 5000 div 1000 < exp token_8 \<and> tok_userId token_8 = 8"
    using k by (simp add: token_8_def)
  show ?thesis using c1 c2 P H by blast
qed

text \<open>
  C10, as stated, fails: the header is cut at single spaces, not at white space. In
  \<open>Bearer  tok7\<close> (two spaces) and in \<open>Bearer\<close>, a tab, \<open>tok7\<close>, the second
  component separated by white space is \<open>tok7\<close>, a token that verifies, and the guard
  answers 401: \<open>split(' ')[1]\<close> is the empty string in the first and undefined in the
  second.
\<close>

theorem guard_whitespace_counterexample:
  "at_index (whitespace_separated ''Bearer  tok7'') 1 = Some ''tok7''
   \<and> jwt_verify decode_7 ''s3cret'' 5000 ''tok7'' = Some 7
   \<and> authMiddleware decode_7 ''s3cret'' 5000 (with_header (Some ''Bearer  tok7'')) =
        Inl (Response 401 (Message ''Token not found. Authorization denied.''))
   \<and> at_index (whitespace_separated (''Bearer'' @ [char_of (9 :: nat)] @ ''tok7'')) 1 = Some ''tok7''
   \<and> authMiddleware decode_7 ''s3cret'' 5000
        (with_header (Some (''Bearer'' @ [char_of (9 :: nat)] @ ''tok7''))) =
        Inl (Response 401 (Message ''Token not found. Authorization denied.''))"
proof -
  have 1: "at_index (whitespace_separated ''Bearer  tok7'') 1 = Some ''tok7''" by code_simp
  have 2: "authMiddleware decode_7 ''s3cret'' 5000 (with_header (Some ''Bearer  tok7'')) =
        Inl (Response 401 (Message ''Token not found. Authorization denied.''))"
    by (simp add: authMiddleware_def with_header_def Let_def)
  have 3: "at_index (whitespace_separated (''Bearer'' @ [char_of (9 :: nat)] @ ''tok7'')) 1 = Some ''tok7''"
    by code_simp
  have 4: "js_split CHR '' '' (''Bearer'' @ [char_of (9 :: nat)] @ ''tok7'') =
       [''Bearer'' @ [char_of (9 :: nat)] @ ''tok7'']"
    by code_simp
  have 5: "authMiddleware decode_7 ''s3cret'' 5000
        (with_header (Some (''Bearer'' @ [char_of (9 :: nat)] @ ''tok7''))) =
        Inl (Response 401 (Message ''Token not found. Authorization denied.''))"
    using 4 by (simp add: authMiddleware_def with_header_def)
  show ?thesis using 1 2 3 5 verify_tok7 by blast
qed

text \<open>
  C10, amended. The access guard never checks the authorization scheme: the token is
  the text between the first space of the header and the next space
  (\<open>split(' ')[1]\<close>; only the space character separates, and two spaces in a row
  give an empty token). So a header made of any prefix word, one space and a token
  that verifies is accepted with that token's identity (for instance \<open>Basic tok7\<close>);
  a header without a space is answered 401; and for every header with a space the
  outcome is that of the text between the first space and the next: 401 when it is
  empty or does not verify, the verified identity otherwise.
\<close>

theorem guard_ignores_scheme:
  "(authorization req = Some (w @ CHR '' '' # tok) \<and> CHR '' '' \<notin> set w \<and> CHR '' '' \<notin> set tok
      \<and> tok \<noteq> [] \<and> jwt_verify decode secret now tok = Some u
     \<longrightarrow> authMiddleware decode secret now req = Inr (attach req u)
         \<and> req_userId (attach req u) = u)
   \<and> (authorization req = Some h \<and> CHR '' '' \<notin> set h
     \<longrightarrow> authMiddleware decode secret now req =
           Inl (Response 401 (Message (if h = [] then ''No token provided. Authorization denied.''
                                       else ''Token not found. Authorization denied.''))))
   \<and> (authorization req = Some h \<and> CHR '' '' \<in> set h
     \<longrightarrow> authMiddleware decode secret now req =
           (let tok = takeWhile (\<lambda>c. c \<noteq> CHR '' '') (tl (dropWhile (\<lambda>c. c \<noteq> CHR '' '') h))
            in if tok = []
               then Inl (Response 401 (Message ''Token not found. Authorization denied.''))
               else (case jwt_verify decode secret now tok of
                       None \<Rightarrow> Inl (Response 401
                                 (Message ''Invalid or expired token. Authorization denied.''))
                     | Some v \<Rightarrow> Inr (attach req v))))"
proof (intro conjI impI)
  assume a: "authorization req = Some (w @ CHR '' '' # tok) \<and> CHR '' '' \<notin> set w \<and> CHR '' '' \<notin> set tok
      \<and> tok \<noteq> [] \<and> jwt_verify decode secret now tok = Some u"
  then have "js_split CHR '' '' (w @ CHR '' '' # tok) = [w, tok]"
    by (simp add: js_split_prefix js_split_nosep)
  then have "at_index (js_split CHR '' '' (w @ CHR '' '' # tok)) 1 = Some tok" by simp
  with a show "authMiddleware decode secret now req = Inr (attach req u)"
    unfolding authMiddleware_Inr by blast
  show "req_userId (attach req u) = u" by (simp add: attach_def)
next
  assume a: "authorization req = Some h \<and> CHR '' '' \<notin> set h"
  then have "at_index (js_split CHR '' '' h) 1 = None" by (simp add: js_split_nosep)
  with a show "authMiddleware decode secret now req =
           Inl (Response 401 (Message (if h = [] then ''No token provided. Authorization denied.''
                                       else ''Token not found. Authorization denied.'')))"
    by (simp add: authMiddleware_def)
next
  assume a: "authorization req = Some h \<and> CHR '' '' \<in> set h"
  then have "h \<noteq> []" by auto
  moreover have "at_index (js_split CHR '' '' h) 1 =
      Some (takeWhile (\<lambda>c. c \<noteq> CHR '' '') (tl (dropWhile (\<lambda>c. c \<noteq> CHR '' '') h)))"
    using a by (simp add: second_piece)
  ultimately show "authMiddleware decode secret now req =
           (let tok = takeWhile (\<lambda>c. c \<noteq> CHR '' '') (tl (dropWhile (\<lambda>c. c \<noteq> CHR '' '') h))
            in if tok = []
               then Inl (Response 401 (Message ''Token not found. Authorization denied.''))
               else (case jwt_verify decode secret now tok of
                       None \<Rightarrow> Inl (Response 401
                                 (Message ''Invalid or expired token. Authorization denied.''))
                     | Some v \<Rightarrow> Inr (attach req v)))"
    using a by (simp add: authMiddleware_def Let_def)
qed

theorem guard_ignores_scheme_witness:
  "authorization (with_header (Some ''Basic tok7'')) = Some (''Basic'' @ CHR '' '' # ''tok7'')
   \<and> CHR '' '' \<notin> set ''Basic'' \<and> CHR '' '' \<notin> set ''tok7'' \<and> ''tok7'' \<noteq> []
   \<and> jwt_verify decode_7 ''s3cret'' 5000 ''tok7'' = Some 7
   \<and> authMiddleware decode_7 ''s3cret'' 5000 (with_header (Some ''Basic tok7'')) =
        Inr (attach (with_header (Some ''Basic tok7'')) 7)
   \<and> req_userId (attach (with_header (Some ''Basic tok7'')) 7) = 7
   \<and> authorization (with_header (Some ''Bearer'')) = Some ''Bearer''
   \<and> CHR '' '' \<notin> set ''Bearer''
   \<and> authMiddleware decode_7 ''s3cret'' 5000 (with_header (Some ''Bearer'')) =
        Inl (Response 401 (Message ''Token not found. Authorization denied.''))
   \<and> authorization (with_header (Some ''Bearer  tok7'')) = Some ''Bearer  tok7''
   \<and> CHR '' '' \<in> set ''Bearer  tok7''
   \<and> takeWhile (\<lambda>c. c \<noteq> CHR '' '') (tl (dropWhile (\<lambda>c. c \<noteq> CHR '' '') ''Bearer  tok7'')) = []
   \<and> authMiddleware decode_7 ''s3cret'' 5000 (with_header (Some ''Bearer  tok7'')) =
        Inl (Response 401 (Message ''Token not found. Authorization denied.''))
   \<and> CHR '' '' \<in> set ''Token tok7 more''
   \<and> takeWhile (\<lambda>c. c \<noteq> CHR '' '') (tl (dropWhile (\<lambda>c. c \<noteq> CHR '' '') ''Token tok7 more'')) = ''tok7''
   \<and> authMiddleware decode_7 ''s3cret'' 5000 (with_header (Some ''Token tok7 more'')) =
        Inr (attach (with_header (Some ''Token tok7 more'')) 7)"
proof -
  let ?basic = "with_header (Some ''Basic tok7'')"
  let ?bare = "with_header (Some ''Bearer'')"
  let ?two = "with_header (Some ''Bearer  tok7'')"
  let ?more = "with_header (Some ''Token tok7 more'')"
  have a: "authorization ?basic = Some (''Basic'' @ CHR '' '' # ''tok7'')
      \<and> CHR '' '' \<notin> set ''Basic'' \<and> CHR '' '' \<notin> set ''tok7''
      \<and> ''tok7'' \<noteq> [] \<and> jwt_verify decode_7 ''s3cret'' 5000 ''tok7'' = Some 7"
    by (simp add: with_header_def verify_tok7)
  have A: "authMiddleware decode_7 ''s3cret'' 5000 ?basic = Inr (attach ?basic 7)
      \<and> req_userId (attach ?basic 7) = 7"
    using guard_ignores_scheme [of ?basic "''Basic''" "''tok7''" decode_7 "''s3cret''" 5000 7] a
    by blast
  have b: "authorization ?bare = Some ''Bearer'' \<and> CHR '' '' \<notin> set ''Bearer''"
    by (simp add: with_header_def)
  have B: "authMiddleware decode_7 ''s3cret'' 5000 ?bare =
        Inl (Response 401 (Message ''Token not found. Authorization denied.''))"
    using guard_ignores_scheme [of ?bare _ _ decode_7 "''s3cret''" 5000 _ "''Bearer''"] b
    by simp
  have c: "authorization ?two = Some ''Bearer  tok7'' \<and> CHR '' '' \<in> set ''Bearer  tok7''"
    by (simp add: with_header_def)
  have ct: "takeWhile (\<lambda>c. c \<noteq> CHR '' '') (tl (dropWhile (\<lambda>c. c \<noteq> CHR '' '') ''Bearer  tok7'')) = []"
    by simp
  have C: "authMiddleware decode_7 ''s3cret'' 5000 ?two =
        Inl (Response 401 (Message ''Token not found. Authorization denied.''))"
    using guard_ignores_scheme [of ?two _ _ decode_7 "''s3cret''" 5000 _ "''Bearer  tok7''"] c
    by (simp add: Let_def)
  have d: "authorization ?more = Some ''Token tok7 more'' \<and> CHR '' '' \<in> set ''Token tok7 more''"
    by (simp add: with_header_def)
  have dt: "takeWhile (\<lambda>c. c \<noteq> CHR '' '') (tl (dropWhile (\<lambda>c. c \<noteq> CHR '' '') ''Token tok7 more'')) = ''tok7''"
    by simp
  have D: "authMiddleware decode_7 ''s3cret'' 5000 ?more = Inr (attach ?more 7)"
    using guard_ignores_scheme [of ?more _ _ decode_7 "''s3cret''" 5000 _ "''Token tok7 more''"] d
    by (simp add: Let_def verify_tok7)
  show ?thesis using a A b B c ct C d dt D by blast
qed

text \<open>
  C6. Register/login round trip: for a valid pair (an email that is a string and not
  blank, a password that is a string of at least 6 characters, as the user schema
  demands) whose email is not registered yet, and with the secret configured, register
  answers 201 with a token and the id of the user it stored, a later login with the
  same email and password answers 200 with a token and the same id, and each of the
  two tokens, verified with the secret before it expires, yields that id.
\<close>

theorem register_login_roundtrip:
  assumes "b_email (body req) = JStr e" and "b_password (body req) = JStr p"
    and "toLowerCase (trim e) \<noteq> []" and "6 \<le> length p" and "secret \<noteq> []"
    and "toLowerCase (trim e) \<notin> email ` set (users d)"
  shows "\<exists>t1 t2 d'.
      register now salt secret req d =
        (Response 201 (AuthInfo ''User registered successfully'' t1 (nextId d)), d')
    \<and> users d' = users d @ [\<lparr>uid = nextId d, email = toLowerCase (trim e),
                               password = bcrypt_hash p salt\<rparr>]
    \<and> login now' secret req d' = (Response 200 (AuthInfo ''Login successful'' t2 (nextId d)), d')
    \<and> (\<forall>clock s. decode s = Some t1 \<and> clock div 1000 < now div 1000 + 604800 \<longrightarrow>
           jwt_verify decode secret clock s = Some (nextId d))
    \<and> (\<forall>clock s. decode s = Some t2 \<and> clock div 1000 < now' div 1000 + 604800 \<longrightarrow>
           jwt_verify decode secret clock s = Some (nextId d))"
proof -
  let ?em = "toLowerCase (trim e)"
  let ?u = "\<lparr>uid = nextId d, email = ?em, password = bcrypt_hash p salt\<rparr>"
  let ?d' = "d\<lparr>users := users d @ [?u], nextId := Suc (nextId d)\<rparr>"
  have e: "e \<noteq> []" using assms(3) by (auto simp: trim_Nil toLowerCase_def)
  have p: "p \<noteq> []" using assms(4) by auto
  have ce: "castEmail (JStr e) = Some ?em" by (simp add: castEmail_def)
  have fresh: "\<forall>y\<in>set (users d). email y \<noteq> ?em"
    using assms(6) by (metis imageI)
  have none: "User_findOne (JStr e) d = None"
    using fresh by (simp add: User_findOne_def ce find_None_conv)
  have create: "User_create salt (JStr e) (JStr p) d = Inr (?u, ?d')"
    using assms(3,4,6) p by (simp add: User_create_def ce Let_def)
  obtain t1 where t1: "generateToken secret now (nextId d) = Some t1"
    using assms(5) by (simp add: generateToken_def)
  obtain t2 where t2: "generateToken secret now' (nextId d) = Some t2"
    using assms(5) by (simp add: generateToken_def)
  have reg: "register now salt secret req d =
        (Response 201 (AuthInfo ''User registered successfully'' t1 (nextId d)), ?d')"
    using assms(1,2) e p none create t1 by (simp add: register_def Let_def)
  have "find (\<lambda>u. Some (email u) = Some ?em) (users d @ [?u]) = Some ?u"
    using fresh by (intro find_append_last) auto
  then have found: "User_findOne (JStr e) ?d' = Some ?u"
    by (simp add: User_findOne_def ce)
  have cmp: "comparePassword ?u (JStr p) = Inr True"
    by (simp add: comparePassword_def bcrypt_compare_hash)
  have log: "login now' secret req ?d' =
        (Response 200 (AuthInfo ''Login successful'' t2 (nextId d)), ?d')"
    using assms(1,2) e p found cmp t2 by (simp add: login_def Let_def)
  have v1: "\<forall>clock s. decode s = Some t1 \<and> clock div 1000 < now div 1000 + 604800 \<longrightarrow>
           jwt_verify decode secret clock s = Some (nextId d)"
    using generateToken_verifies [OF t1] by blast
  have v2: "\<forall>clock s. decode s = Some t2 \<and> clock div 1000 < now' div 1000 + 604800 \<longrightarrow>
           jwt_verify decode secret clock s = Some (nextId d)"
    using generateToken_verifies [OF t2] by blast
  have us: "users ?d' = users d @ [?u]" by simp
  show ?thesis using reg us log v1 v2 by blast
qed

theorem register_login_roundtrip_witness:
  "b_email (body (credentials (JStr ''Alice@X.com'') (JStr ''secret1''))) = JStr ''Alice@X.com''
   \<and> b_password (body (credentials (JStr ''Alice@X.com'') (JStr ''secret1''))) = JStr ''secret1''
   \<and> toLowerCase (trim ''Alice@X.com'') \<noteq> [] \<and> 6 \<le> length ''secret1'' \<and> ''s3cret'' \<noteq> []
   \<and> toLowerCase (trim ''Alice@X.com'') \<notin> email ` set (users empty_db)
   \<and> register 1000 ''salt'' ''s3cret'' (credentials (JStr ''Alice@X.com'') (JStr ''secret1'')) empty_db =
       (Response 201 (AuthInfo ''User registered successfully'' token_alice 0), db_alice)
   \<and> login 2000 ''s3cret'' (credentials (JStr ''Alice@X.com'') (JStr ''secret1'')) db_alice =
       (Response 200 (AuthInfo ''Login successful''
          \<lparr>tok_userId = 0, iat = 2, exp = 604802, signed_with = ''s3cret''\<rparr> 0), db_alice)
   \<and> decode_alice ''tokA'' = Some token_alice
   \<and> jwt_verify decode_alice ''s3cret'' 86400000 ''tokA'' = Some 0"
proof -
  let ?req = "credentials (JStr ''Alice@X.com'') (JStr ''secret1'')"
  have h1: "b_email (body ?req) = JStr ''Alice@X.com''" by (simp add: credentials_def)
  have h2: "b_password (body ?req) = JStr ''secret1''" by (simp add: credentials_def)
  have h3: "toLowerCase (trim ''Alice@X.com'') \<noteq> []" by (simp add: lower_Alice)
  have h4: "6 \<le> length ''secret1''" by simp
  have h5: "''s3cret'' \<noteq> []" by simp
  have h6: "toLowerCase (trim ''Alice@X.com'') \<notin> email ` set (users empty_db)"
    by (simp add: empty_db_def)
  from register_login_roundtrip [OF h1 h2 h3 h4 h5 h6, of 1000 "''salt''" 2000 decode_alice]
  obtain t1 t2 d' where
    r: "register 1000 ''salt'' ''s3cret'' ?req empty_db =
        (Response 201 (AuthInfo ''User registered successfully'' t1 (nextId empty_db)), d')"
    and l: "login 2000 ''s3cret'' ?req d' =
        (Response 200 (AuthInfo ''Login successful'' t2 (nextId empty_db)), d')"
    and v: "\<forall>clock s. decode_alice s = Some t1 \<and> clock div 1000 < 1000 div 1000 + 604800 \<longrightarrow>
           jwt_verify decode_alice ''s3cret'' clock s = Some (nextId empty_db)"
    by blast
  from r have t1: "t1 = token_alice" and d': "d' = db_alice" by (simp_all add: register_alice)
  have dec: "decode_alice ''tokA'' = Some token_alice" by (simp add: decode_alice_def)
  have V: "jwt_verify decode_alice ''s3cret'' 86400000 ''tokA'' = Some 0"
    using v dec t1 by (simp add: empty_db_def)
  have L: "login 2000 ''s3cret'' ?req db_alice =
       (Response 200 (AuthInfo ''Login successful''
          \<lparr>tok_userId = 0, iat = 2, exp = 604802, signed_with = ''s3cret''\<rparr> 0), db_alice)"
    by (simp add: auth_defs db_alice_def alice_def)
  show ?thesis using h1 h2 h3 h4 h5 h6 register_alice L dec V l by simp
qed

text \<open>
  C7. Email uniqueness: registering with an email for which a user record exists
  answers 400 (with both fields given: "User with this email already exists") and
  leaves the database unchanged; in every reachable state no two user records share
  an email; login and the task handlers never change the user collection.
\<close>

theorem email_uniqueness:
  "((\<exists>u\<in>set (users d). Some (email u) = castEmail (b_email (body req))) \<longrightarrow>
        code (fst (register now salt secret req d)) = 400
      \<and> snd (register now salt secret req d) = d
      \<and> (truthy (b_email (body req)) \<and> truthy (b_password (body req)) \<longrightarrow>
           register now salt secret req d =
             (Response 400 (Message ''User with this email already exists''), d)))
   \<and> (reachable d \<longrightarrow> distinct (map email (users d)))
   \<and> users (snd (login now secret req d)) = users d
   \<and> users (snd (handler r now areq d)) = users d"
proof (intro conjI impI)
  assume "\<exists>u\<in>set (users d). Some (email u) = castEmail (b_email (body req))"
  then have "\<exists>x. find (\<lambda>u. Some (email u) = castEmail (b_email (body req))) (users d) = Some x"
    by (rule find_Some_ex)
  then obtain x where x: "User_findOne (b_email (body req)) d = Some x"
    unfolding User_findOne_def by blast
  then show "code (fst (register now salt secret req d)) = 400"
    and "snd (register now salt secret req d) = d"
    by (simp_all add: register_def Let_def)
  assume "truthy (b_email (body req)) \<and> truthy (b_password (body req))"
  then show "register now salt secret req d =
             (Response 400 (Message ''User with this email already exists''), d)"
    using x by (simp add: register_def Let_def)
next
  assume "reachable d"
  then show "distinct (map email (users d))" by (simp add: reachable_wf wf_emails)
next
  show "users (snd (login now secret req d)) = users d" by (simp add: login_db)
next
  show "users (snd (handler r now areq d)) = users d" by (rule handler_users)
qed

theorem email_uniqueness_witness:
  "(\<exists>u\<in>set (users db_alice). Some (email u) = castEmail (JStr '' ALICE@x.com''))
   \<and> truthy (JStr '' ALICE@x.com'') \<and> truthy (JStr ''another1'')
   \<and> register 9000 ''pepper'' ''s3cret'' (credentials (JStr '' ALICE@x.com'') (JStr ''another1'')) db_alice =
        (Response 400 (Message ''User with this email already exists''), db_alice)
   \<and> reachable db_alice \<and> distinct (map email (users db_alice))"
proof -
  let ?req = "credentials (JStr '' ALICE@x.com'') (JStr ''another1'')"
  have c: "castEmail (JStr '' ALICE@x.com'') = Some ''alice@x.com''"
    by (rule castEmail_ALICE)
  have h: "\<exists>u\<in>set (users db_alice). Some (email u) = castEmail (b_email (body ?req))"
    by (simp add: credentials_def no_body_def c db_alice_def alice_def)
  have t: "truthy (b_email (body ?req)) \<and> truthy (b_password (body ?req))"
    by (simp add: credentials_def no_body_def)
  have r: "reachable db_alice" by (rule reachable_db_alice)
  have A: "register 9000 ''pepper'' ''s3cret'' ?req db_alice =
        (Response 400 (Message ''User with this email already exists''), db_alice)"
    using email_uniqueness [of db_alice ?req 9000 "''pepper''" "''s3cret''"] h t by blast
  have B: "distinct (map email (users db_alice))"
    using email_uniqueness [of db_alice] r by blast
  show ?thesis using h t A B r by (simp add: credentials_def no_body_def)
qed

end
